theory Spec2Isabelle
  imports Complex_Main
begin

section \<open>JavaScript values used by the scheduler core\<close>

text \<open>
  A time-valued property of an event (\<open>startTime\<close>, \<open>endTime\<close>) as the code reads it.
  Every producer emits such a property as a date-time string or leaves it out, and the
  code only ever does two things with it: test it for truthiness
  (\<open>!event.startTime\<close>, \<open>event.endTime ? \<dots>\<close>) and hand it to \<open>new Date(\<dots>)\<close>.
  \<open>Undefined\<close> is a property that is missing (or the empty string), \<open>Null\<close> is
  \<open>null\<close>, \<open>Unparseable\<close> is a non-empty string that \<open>Date\<close> cannot parse, and
  \<open>Instant ms\<close> is a non-empty string that denotes \<open>ms\<close> milliseconds since the
  epoch. Numbers as property values (where \<open>0\<close> would be falsy) are not covered.
\<close>

datatype js_time = Undefined | Null | Unparseable | Instant int

text \<open>
  A \<open>Date\<close> holds a time value of at most 8.64e15 milliseconds on either side of the
  epoch; beyond that it is an Invalid Date, whose time value is \<open>NaN\<close>.
\<close>

definition timeClip :: "int \<Rightarrow> int option" where
  "timeClip ms = (if - 8640000000000000 \<le> ms \<and> ms \<le> 8640000000000000 then Some ms else None)"

definition truthy :: "js_time \<Rightarrow> bool" where
  "truthy t = (case t of Undefined \<Rightarrow> False | Null \<Rightarrow> False | Unparseable \<Rightarrow> True | Instant ms \<Rightarrow> True)"

text \<open>\<open>new Date(v).getTime()\<close>; \<open>None\<close> stands for \<open>NaN\<close>.\<close>

definition getTime :: "js_time \<Rightarrow> int option" where
  "getTime t =
    (case t of Undefined \<Rightarrow> None | Null \<Rightarrow> Some 0 | Unparseable \<Rightarrow> None
     | Instant ms \<Rightarrow> timeClip ms)"

text \<open>Number arithmetic and comparison with \<open>NaN\<close>: every comparison with \<open>NaN\<close> is false.\<close>

fun js_lt :: "int option \<Rightarrow> int option \<Rightarrow> bool" where
  "js_lt (Some x) (Some y) = (x < y)"
| "js_lt _ _ = False"

fun js_strict_eq :: "int option \<Rightarrow> int option \<Rightarrow> bool" where
  "js_strict_eq (Some x) (Some y) = (x = y)"
| "js_strict_eq _ _ = False"

fun js_max :: "int option \<Rightarrow> int option \<Rightarrow> int option" where
  "js_max (Some x) (Some y) = Some (max x y)"
| "js_max _ _ = None"

fun js_min :: "int option \<Rightarrow> int option \<Rightarrow> int option" where
  "js_min (Some x) (Some y) = Some (min x y)"
| "js_min _ _ = None"

fun js_sub :: "int option \<Rightarrow> int option \<Rightarrow> int option" where
  "js_sub (Some x) (Some y) = Some (x - y)"
| "js_sub _ _ = None"

definition js_add :: "int option \<Rightarrow> int \<Rightarrow> int option" where
  "js_add a k = map_option (\<lambda>x. x + k) a"

text \<open>The time value of \<open>new Date(n)\<close> for a number \<open>n\<close>.\<close>

definition newDate :: "int option \<Rightarrow> int option" where
  "newDate n = (case n of None \<Rightarrow> None | Some ms \<Rightarrow> timeClip ms)"

definition js_div :: "int option \<Rightarrow> int \<Rightarrow> real option" where
  "js_div a k = map_option (\<lambda>x. real_of_int x / real_of_int k) a"

fun js_gt_real :: "real option \<Rightarrow> real \<Rightarrow> bool" where
  "js_gt_real (Some x) y = (x > y)"
| "js_gt_real None y = False"

section \<open>Data model\<close>

text \<open>
  The response status of an attendee is a string, except that the Outlook parser looks
  the provider's status up in an object literal: for a name that the literal inherits
  from \<open>Object.prototype\<close> (\<open>statusMap['constructor']\<close>) the status is that inherited
  member, a function or object that is truthy and strictly equal to no string.
\<close>

datatype js_status = Text string | Inherited string

record attendee =
  name_att :: "string option"
  email :: "string option"
  responseStatus :: js_status
  self :: bool

text \<open>
  An event as the producers emit it. Optional properties are options (\<open>None\<close> is
  \<open>undefined\<close>/\<open>null\<close>). \<open>hasConflict\<close> and \<open>conflictCount\<close> are the
  annotations that the ingestion handler adds.
\<close>

record event =
  id_ev :: string
  title :: "string option"
  startTime :: js_time
  endTime :: js_time
  attendees :: "attendee list option"
  meetingLink :: "string option"
  description :: "string option"
  location :: "string option"
  source :: "string option"
  hasConflict :: bool
  conflictCount :: nat

section \<open>Conflict detector (src/utils/conflict-detector.js)\<close>

definition eventsOverlap :: "event \<Rightarrow> event \<Rightarrow> bool" where
  "eventsOverlap event1 event2 =
    (let start1 = getTime (startTime event1);
         end1 = (if truthy (endTime event1) then getTime (endTime event1)
                 else newDate (js_add start1 (60 * 60 * 1000)));
         start2 = getTime (startTime event2);
         end2 = (if truthy (endTime event2) then getTime (endTime event2)
                 else newDate (js_add start2 (60 * 60 * 1000)))
     in js_lt start1 end2 \<and> js_lt start2 end1)"

datatype severity = High | Medium | Low

definition calculateSeverity :: "event \<Rightarrow> event \<Rightarrow> severity" where
  "calculateSeverity event1 event2 =
    (let start1 = getTime (startTime event1);
         start2 = getTime (startTime event2)
     in if js_strict_eq start1 start2 then High
        else
          (let end1 = (if truthy (endTime event1) then getTime (endTime event1)
                       else newDate (js_add start1 (60 * 60 * 1000)));
               end2 = (if truthy (endTime event2) then getTime (endTime event2)
                       else newDate (js_add start2 (60 * 60 * 1000)));
               overlapStart = newDate (js_max start1 start2);
               overlapEnd = newDate (js_min end1 end2);
               overlapMinutes = js_div (js_sub overlapEnd overlapStart) (1000 * 60)
           in if js_gt_real overlapMinutes 30 then High
              else if js_gt_real overlapMinutes 15 then Medium
              else Low))"

text \<open>
  The end instant in the words of the specification: the event's own end, and the start
  plus one hour when the end is absent. An instant is a time value that a \<open>Date\<close>
  can hold; an end that is no such instant is \<open>None\<close>.
\<close>

definition plusOneHour :: "int option \<Rightarrow> int option" where
  "plusOneHour start = (case start of None \<Rightarrow> None | Some s \<Rightarrow> timeClip (s + 3600000))"

definition eventEnd :: "event \<Rightarrow> int option" where
  "eventEnd e =
    (case endTime e of
       Undefined \<Rightarrow> plusOneHour (getTime (startTime e))
     | Null \<Rightarrow> plusOneHour (getTime (startTime e))
     | Unparseable \<Rightarrow> None
     | Instant ms \<Rightarrow> timeClip ms)"

text \<open>Concrete events used in the examples: 15 January 2024, 9:00 UTC is 1705309200000.\<close>

definition mk_event :: "string \<Rightarrow> string \<Rightarrow> int \<Rightarrow> js_time \<Rightarrow> event" where
  "mk_event i t s e =
    \<lparr> id_ev = i, title = Some t, startTime = Instant s, endTime = e,
      attendees = None, meetingLink = None, description = None, location = None,
      source = None, hasConflict = False, conflictCount = 0 \<rparr>"

definition ev_A :: event where
  "ev_A = mk_event ''a'' ''Design review'' 1705309200000 (Instant 1705312800000)"

definition ev_B :: event where
  "ev_B = mk_event ''b'' ''Planning'' 1705311000000 (Instant 1705314600000)"

definition ev_C :: event where
  "ev_C = mk_event ''c'' ''Retro'' 1705312800000 Undefined"

section \<open>Strings\<close>

text \<open>
  A string is a list of characters with codes below 256, the Latin-1 part of
  JavaScript's code units; text outside it is not covered. On these characters
  \<open>toLowerCase\<close> maps the capitals A to Z and the accented capitals \<open>0xC0\<close> to
  \<open>0xDE\<close> (except the multiplication sign \<open>0xD7\<close>) to the character 32 above,
  and the white space of \<open>trim\<close> and of the pattern \<open>\s\<close> is tab, line feed,
  vertical tab, form feed, carriage return, space and the no-break space \<open>0xA0\<close>.
\<close>

definition lower_char :: "char \<Rightarrow> char" where
  "lower_char c =
    (case map_of
       (zip (''ABCDEFGHIJKLMNOPQRSTUVWXYZ'' @
             [CHR 0xC0, CHR 0xC1, CHR 0xC2, CHR 0xC3, CHR 0xC4, CHR 0xC5, CHR 0xC6, CHR 0xC7,
             CHR 0xC8, CHR 0xC9, CHR 0xCA, CHR 0xCB, CHR 0xCC, CHR 0xCD, CHR 0xCE, CHR 0xCF,
             CHR 0xD0, CHR 0xD1, CHR 0xD2, CHR 0xD3, CHR 0xD4, CHR 0xD5, CHR 0xD6, CHR 0xD8,
             CHR 0xD9, CHR 0xDA, CHR 0xDB, CHR 0xDC, CHR 0xDD, CHR 0xDE])
            (''abcdefghijklmnopqrstuvwxyz'' @
             [CHR 0xE0, CHR 0xE1, CHR 0xE2, CHR 0xE3, CHR 0xE4, CHR 0xE5, CHR 0xE6, CHR 0xE7,
             CHR 0xE8, CHR 0xE9, CHR 0xEA, CHR 0xEB, CHR 0xEC, CHR 0xED, CHR 0xEE, CHR 0xEF,
             CHR 0xF0, CHR 0xF1, CHR 0xF2, CHR 0xF3, CHR 0xF4, CHR 0xF5, CHR 0xF6, CHR 0xF8,
             CHR 0xF9, CHR 0xFA, CHR 0xFB, CHR 0xFC, CHR 0xFD, CHR 0xFE])) c of
       None \<Rightarrow> c
     | Some l \<Rightarrow> l)"

definition toLowerCase :: "string \<Rightarrow> string" where
  "toLowerCase str = map lower_char str"

definition is_ws :: "char \<Rightarrow> bool" where
  "is_ws c =
    (c \<in> set [CHR 0x09, CHR 0x0A, CHR 0x0B, CHR 0x0C, CHR 0x0D, CHR '' '', CHR 0xA0])"

definition trim :: "string \<Rightarrow> string" where
  "trim str = rev (dropWhile is_ws (rev (dropWhile is_ws str)))"

text \<open>
  \<open>str.replace(/\s+/g, '-')\<close>: every maximal run of whitespace becomes one hyphen.
  The flag says that the previous character was whitespace.
\<close>

fun replace_runs :: "bool \<Rightarrow> string \<Rightarrow> string" where
  "replace_runs in_run [] = []"
| "replace_runs in_run (c # cs) =
    (if is_ws c then (if in_run then replace_runs True cs else CHR ''-'' # replace_runs True cs)
     else c # replace_runs False cs)"

definition replaceWhitespace :: "string \<Rightarrow> string" where
  "replaceWhitespace str = replace_runs False str"

text \<open>\<open>str.includes(pat)\<close>.\<close>

fun startsWith :: "string \<Rightarrow> string \<Rightarrow> bool" where
  "startsWith str [] = True"
| "startsWith [] (p # ps) = False"
| "startsWith (c # cs) (p # ps) = (c = p \<and> startsWith cs ps)"

fun includes_str :: "string \<Rightarrow> string \<Rightarrow> bool" where
  "includes_str [] pat = (pat = [])"
| "includes_str (c # cs) pat = (startsWith (c # cs) pat \<or> includes_str cs pat)"

text \<open>
  A number in a template literal. The numbers printed here are integers well inside the
  range in which JavaScript prints every digit; \<open>NaN\<close> prints as \<open>NaN\<close>.
\<close>

definition digit_char :: "int \<Rightarrow> char" where
  "digit_char n = ''0123456789'' ! nat (n mod 10)"

function digits :: "int \<Rightarrow> string" where
  "digits n = (if n < 10 then [digit_char n] else digits (n div 10) @ [digit_char n])"
  by pat_completeness auto
termination
  by (relation "measure nat") auto

declare digits.simps [simp del]

definition showInt :: "int \<Rightarrow> string" where
  "showInt i = (if i < 0 then CHR ''-'' # digits (- i) else digits i)"

definition numString :: "int option \<Rightarrow> string" where
  "numString v = (case v of None \<Rightarrow> ''NaN'' | Some i \<Rightarrow> showInt i)"

section \<open>Event reconciler (deduplicateEvents, hasMoreDetails in the service worker)\<close>

datatype js_error = TypeError string | Error string

text \<open>\<open>Math.floor(startTime.getTime() / 60000) * 60000\<close>.\<close>

definition roundedTime :: "js_time \<Rightarrow> int option" where
  "roundedTime t = map_option (\<lambda>ms. (ms div 60000) * 60000) (getTime t)"

text \<open>
  The key built inside the loop of \<open>deduplicateEvents\<close>. \<open>event.title.toLowerCase()\<close>
  throws a TypeError when the title is missing.
\<close>

definition dedupKey :: "event \<Rightarrow> js_error + string" where
  "dedupKey ev =
    (case title ev of
       None \<Rightarrow> Inl (TypeError ''Cannot read properties of undefined (reading 'toLowerCase')'')
     | Some t \<Rightarrow> Inr (trim (toLowerCase t) @ ''_'' @ numString (roundedTime (startTime ev))))"

definition length_or_0 :: "'a list option \<Rightarrow> nat" where
  "length_or_0 v = (case v of None \<Rightarrow> 0 | Some xs \<Rightarrow> length xs)"

definition hasMoreDetails :: "event \<Rightarrow> event \<Rightarrow> bool" where
  "hasMoreDetails a b =
    (let scoreA = (case meetingLink a of None \<Rightarrow> 0 | Some l \<Rightarrow> if l = [] then 0 else 2) +
                  length_or_0 (attendees a) +
                  length_or_0 (description a) +
                  length_or_0 (location a);
         scoreB = (case meetingLink b of None \<Rightarrow> 0 | Some l \<Rightarrow> if l = [] then 0 else 2) +
                  length_or_0 (attendees b) +
                  length_or_0 (description b) +
                  length_or_0 (location b)
     in scoreA > scoreB)"

fun indexOf :: "'a list \<Rightarrow> 'a \<Rightarrow> nat option" where
  "indexOf [] x = None"
| "indexOf (y # ys) x = (if y = x then Some 0 else map_option Suc (indexOf ys x))"

text \<open>
  The loop of \<open>deduplicateEvents\<close> with its two locals, the map \<open>seen\<close> and the array
  \<open>result\<close>. Events are compared by value where the code compares object references;
  \<open>result\<close> never holds two events with one key, so the index found is the same.
\<close>

fun dedup_loop :: "event list \<Rightarrow> (string \<rightharpoonup> event) \<Rightarrow> event list \<Rightarrow> js_error + event list" where
  "dedup_loop [] seen result = Inr result"
| "dedup_loop (ev # evs) seen result =
    (case dedupKey ev of
       Inl err \<Rightarrow> Inl err
     | Inr key \<Rightarrow>
        (case seen key of
           Some existing \<Rightarrow>
             (if hasMoreDetails ev existing then
                (case indexOf result existing of
                   Some index \<Rightarrow> dedup_loop evs (seen(key \<mapsto> ev)) (result[index := ev])
                 | None \<Rightarrow> dedup_loop evs seen result)
              else dedup_loop evs seen result)
         | None \<Rightarrow> dedup_loop evs (seen(key \<mapsto> ev)) (result @ [ev])))"

definition deduplicateEvents :: "event list \<Rightarrow> js_error + event list" where
  "deduplicateEvents events = dedup_loop events Map.empty []"

text \<open>
  The richness score in the words of the specification: twice whether there is a meeting
  link, plus the number of attendees, plus the lengths of description and location.
\<close>

definition has_link :: "event \<Rightarrow> bool" where
  "has_link ev = (case meetingLink ev of None \<Rightarrow> False | Some l \<Rightarrow> l \<noteq> [])"

definition richness :: "event \<Rightarrow> nat" where
  "richness ev =
    2 * (if has_link ev then 1 else 0) + length_or_0 (attendees ev) +
    length_or_0 (description ev) + length_or_0 (location ev)"

text \<open>
  Reconciliation in the words of the specification, \<open>reconcile(existing, incoming)\<close>: each
  incoming event is merged into the canonical list; on a collision of identity keys the
  event with the higher richness score is kept, a tie keeps the existing entry, and an
  event with a new key is added at the end.
\<close>

fun merge_in :: "event \<Rightarrow> event list \<Rightarrow> event list" where
  "merge_in ev [] = [ev]"
| "merge_in ev (c # cs) =
    (if dedupKey c = dedupKey ev
     then (if richness ev > richness c then ev # cs else c # cs)
     else c # merge_in ev cs)"

definition reconcile :: "event list \<Rightarrow> event list \<Rightarrow> event list" where
  "reconcile existing incoming = foldl (\<lambda>canonical ev. merge_in ev canonical) existing incoming"

section \<open>Storage (StorageManager, in src/utils/ai-insights.js from line 588) and the scheduler's state\<close>

datatype timer_call = AlarmsCreate string int | AlarmsClear string

text \<open>The user settings with the defaults of src/utils/constants.js.\<close>

record settings =
  reminderMinutes :: int
  playSound :: bool
  showPopup :: bool
  autoOpen :: bool
  voiceReminder :: bool

definition DEFAULT_SETTINGS :: settings where
  "DEFAULT_SETTINGS =
    \<lparr> reminderMinutes = 2, playSound = True, showPopup = True, autoOpen = False,
      voiceReminder = False \<rparr>"

definition ALARM_PREFIX :: string where
  "ALARM_PREFIX = ''alarm_''"

text \<open>
  The state that the scheduler reads and writes.
  \<^item> \<open>alarms\<close>: the named alarms of the durable-timer facility, name to firing instant;
    \<open>timer_calls\<close> is the log of the mutating calls made to the facility, in order.
  \<^item> \<open>snapshots\<close>: the entries of \<open>chrome.storage.local\<close> that hold one event each,
    by their full key; \<open>local_events\<close> is its entry \<open>events\<close> and \<open>local_settings\<close>
    its entry \<open>settings\<close> (\<open>None\<close> when absent).
  \<^item> \<open>sync_settings\<close>: the entry \<open>settings\<close> of \<open>chrome.storage.sync\<close>;
    \<open>sync_available\<close> says whether a read of that store resolves.
  \<^item> \<open>useSyncStorage\<close>: the static field of \<open>StorageManager\<close>, the only part that
    lives in memory.
  \<^item> \<open>apiGoogle\<close>, \<open>apiOutlook\<close>: what \<open>getConnectionStatus\<close> reports.
  \<^item> \<open>badgeText\<close>, \<open>badgeColor\<close>: the toolbar badge.
  Reads and writes of \<open>chrome.storage.local\<close> and calls of \<open>chrome.alarms\<close> resolve.
\<close>

record sched_state =
  alarms :: "string \<rightharpoonup> int"
  timer_calls :: "timer_call list"
  snapshots :: "string \<rightharpoonup> event"
  local_events :: "event list option"
  local_settings :: "settings option"
  sync_settings :: "settings option"
  sync_available :: bool
  useSyncStorage :: bool
  apiGoogle :: bool
  apiOutlook :: bool
  badgeText :: string
  badgeColor :: string

text \<open>
  \<open>StorageManager.getSettings()\<close>: the settings from the sync store, or the defaults
  when it has none; when the sync store cannot be read the field \<open>useSyncStorage\<close> is
  cleared and the local store is read instead, as it is whenever the field is clear.
\<close>

definition getSettings :: "sched_state \<Rightarrow> settings \<times> sched_state" where
  "getSettings s =
    (if useSyncStorage s then
       (if sync_available s
        then (case sync_settings s of None \<Rightarrow> (DEFAULT_SETTINGS, s) | Some st \<Rightarrow> (st, s))
        else (case local_settings s of
                None \<Rightarrow> (DEFAULT_SETTINGS, s\<lparr>useSyncStorage := False\<rparr>)
              | Some st \<Rightarrow> (st, s\<lparr>useSyncStorage := False\<rparr>)))
     else (case local_settings s of None \<Rightarrow> (DEFAULT_SETTINGS, s) | Some st \<Rightarrow> (st, s)))"

definition getEvents :: "sched_state \<Rightarrow> event list" where
  "getEvents s = (case local_events s of None \<Rightarrow> [] | Some evs \<Rightarrow> evs)"

definition saveEvents :: "event list \<Rightarrow> sched_state \<Rightarrow> sched_state" where
  "saveEvents evs s = s\<lparr>local_events := Some evs\<rparr>"

definition getEvent :: "string \<Rightarrow> sched_state \<Rightarrow> event option" where
  "getEvent eventId s = (let key = ALARM_PREFIX @ eventId in snapshots s key)"

definition saveEvent :: "string \<Rightarrow> event \<Rightarrow> sched_state \<Rightarrow> sched_state" where
  "saveEvent eventId ev s =
    (let key = ALARM_PREFIX @ eventId in s\<lparr>snapshots := (snapshots s)(key \<mapsto> ev)\<rparr>)"

definition removeEvent :: "string \<Rightarrow> sched_state \<Rightarrow> sched_state" where
  "removeEvent eventId s =
    (let key = ALARM_PREFIX @ eventId in s\<lparr>snapshots := (snapshots s)(key := None)\<rparr>)"

text \<open>
  A restart of the service worker: the static field is initialised again, everything
  else is kept by the host.
\<close>

definition restart :: "sched_state \<Rightarrow> sched_state" where
  "restart s = s\<lparr>useSyncStorage := True\<rparr>"

section \<open>Reminder scheduler (scheduleReminder, handleDecline, loadStoredEvents)\<close>

text \<open>The durable-timer facility: \<open>chrome.alarms.create\<close> and \<open>chrome.alarms.clear\<close>.\<close>

definition alarms_create :: "string \<Rightarrow> int \<Rightarrow> sched_state \<Rightarrow> sched_state" where
  "alarms_create nm whenMs s =
    s\<lparr>alarms := (alarms s)(nm \<mapsto> whenMs), timer_calls := timer_calls s @ [AlarmsCreate nm whenMs]\<rparr>"

definition alarms_clear :: "string \<Rightarrow> sched_state \<Rightarrow> sched_state" where
  "alarms_clear nm s =
    s\<lparr>alarms := (alarms s)(nm := None), timer_calls := timer_calls s @ [AlarmsClear nm]\<rparr>"

definition MEETING_PREFIX :: string where
  "MEETING_PREFIX = ''meeting_''"

text \<open>The alarm name that \<open>scheduleReminder\<close> derives from title and start time.\<close>

definition alarmName :: "event \<Rightarrow> string" where
  "alarmName ev =
    (let roundedTime = roundedTime (startTime ev);
         normalizedTitle =
           replaceWhitespace (trim (toLowerCase (case title ev of None \<Rightarrow> [] | Some t \<Rightarrow> t)))
     in MEETING_PREFIX @ normalizedTitle @ ''_'' @ numString roundedTime)"

text \<open>
  \<open>event.attendees?.find(a => a.self)\<close> followed by
  \<open>userAttendee?.responseStatus === 'declined'\<close>.
\<close>

definition userDeclined :: "event \<Rightarrow> bool" where
  "userDeclined ev =
    (case attendees ev of
       None \<Rightarrow> False
     | Some as \<Rightarrow>
        (case find self as of
           None \<Rightarrow> False
         | Some userAttendee \<Rightarrow> responseStatus userAttendee = Text ''declined''))"

text \<open>\<open>scheduleReminder(event)\<close>, run at the instant \<open>now\<close> (what \<open>new Date()\<close> reads).\<close>

definition scheduleReminder :: "event \<Rightarrow> int \<Rightarrow> sched_state \<Rightarrow> sched_state" where
  "scheduleReminder ev now s =
    (if truthy (startTime ev) then
       (if userDeclined ev then s
        else
          (let nm = alarmName ev in
           case alarms s nm of
             Some existingAlarm \<Rightarrow> s
           | None \<Rightarrow>
              (case getSettings s of
                 (settings, s') \<Rightarrow>
                   (let reminderTime =
                          newDate (js_add (getTime (startTime ev))
                                     (- (reminderMinutes settings * 60000)))
                    in case reminderTime of
                         None \<Rightarrow> s'
                       | Some whenMs \<Rightarrow>
                           (if whenMs > now then saveEvent nm ev (alarms_create nm whenMs s')
                            else s')))))
     else s)"

text \<open>
  A walk over a list of events that schedules each one; \<open>clock k\<close> is the instant at
  which the \<open>k\<close>-th call runs. \<open>loadStoredEvents\<close> is the walk over the stored event
  list that the service worker makes when it starts: \<open>loadStoredEvents clock (restart s)\<close>
  is what a restart in the state \<open>s\<close> does to the reminders.
\<close>

fun scheduleAll :: "(nat \<Rightarrow> int) \<Rightarrow> nat \<Rightarrow> event list \<Rightarrow> sched_state \<Rightarrow> sched_state" where
  "scheduleAll clock k [] s = s"
| "scheduleAll clock k (ev # evs) s = scheduleAll clock (Suc k) evs (scheduleReminder ev (clock k) s)"

definition loadStoredEvents :: "(nat \<Rightarrow> int) \<Rightarrow> sched_state \<Rightarrow> sched_state" where
  "loadStoredEvents clock s = scheduleAll clock 0 (getEvents s) s"

text \<open>\<open>handleDecline(eventId)\<close>.\<close>

definition handleDecline :: "string \<Rightarrow> sched_state \<Rightarrow> sched_state" where
  "handleDecline eventId s = removeEvent eventId (alarms_clear (MEETING_PREFIX @ eventId) s)"

text \<open>How many times the timer facility was asked to create an alarm of a given name.\<close>

fun is_create :: "string \<Rightarrow> timer_call \<Rightarrow> bool" where
  "is_create nm (AlarmsCreate n whenMs) = (n = nm)"
| "is_create nm (AlarmsClear n) = False"

definition createCount :: "string \<Rightarrow> sched_state \<Rightarrow> nat" where
  "createCount nm s = length (filter (is_create nm) (timer_calls s))"

text \<open>A fresh installation: nothing stored, no alarm, no provider connected.\<close>

definition initial_state :: sched_state where
  "initial_state =
    \<lparr> alarms = Map.empty, timer_calls = [], snapshots = Map.empty, local_events = None,
      local_settings = None, sync_settings = None, sync_available = True,
      useSyncStorage = True, apiGoogle = False, apiOutlook = False,
      badgeText = [], badgeColor = [] \<rparr>"

section \<open>Example events\<close>

text \<open>
  One meeting reported by the Google API and, half a minute later in the same minute, by a
  page scrape that carries no details; \<open>ev_gap\<close> is the same report with two spaces
  inside the title.
\<close>

definition ev_google :: event where
  "ev_google = \<lparr> id_ev = ''g123'', title = Some ''Team Sync'', startTime = Instant 1705309200000,
     endTime = Instant 1705312800000, attendees = Some [], meetingLink = Some ''https://meet.google.com/abc-defg-hij'',
     description = Some ''Weekly'', location = Some '''', source = Some ''google-api'',
     hasConflict = False, conflictCount = 0 \<rparr>"

definition ev_scrape :: event where
  "ev_scrape = \<lparr> id_ev = ''outlook-btn-team-sync'', title = Some '' team sync'', startTime = Instant 1705309230000,
     endTime = Undefined, attendees = None, meetingLink = None,
     description = None, location = None, source = Some ''outlook-dom'',
     hasConflict = False, conflictCount = 0 \<rparr>"


definition ev_gap :: event where
  "ev_gap = ev_scrape\<lparr>title := Some ''Team  Sync''\<rparr>"

text \<open>Another meeting, an hour later.\<close>

definition ev_other :: event where
  "ev_other = mk_event ''o1'' ''Lunch'' 1705312800000 Undefined"

text \<open>The store after an earlier ingestion saved both reports of the meeting.\<close>

definition rewalk_state :: sched_state where
  "rewalk_state = saveEvents [ev_scrape, ev_google] initial_state"

section \<open>Provider parsers (parseOutlookEvents, parseGoogleEvents in src/utils/calendar-api.js)\<close>

text \<open>
  The parts of a Microsoft Graph event that the parser reads. A date-time of the item is
  given as \<open>new Date\<close> reads the string the parser builds from it (\<open>Undefined\<close> when
  \<open>item.start\<close>, \<open>item.end\<close> or their \<open>dateTime\<close> is missing), and
  \<open>oi_meetingLink\<close> is what \<open>extractOutlookMeetingLink\<close> returns for the item; the
  pattern matching inside it is not modelled.
\<close>

record outlook_attendee =
  oa_name :: "string option"
  oa_address :: "string option"
  oa_response :: "string option"

record outlook_item =
  oi_id :: string
  oi_subject :: "string option"
  oi_start :: js_time
  oi_end :: js_time
  oi_location :: "string option"
  oi_bodyPreview :: "string option"
  oi_meetingLink :: "string option"
  oi_attendees :: "outlook_attendee list option"

text \<open>\<open>v || d\<close> on an optional string: the empty string is falsy.\<close>

definition or_else :: "string option \<Rightarrow> string \<Rightarrow> string" where
  "or_else v d = (case v of None \<Rightarrow> d | Some x \<Rightarrow> if x = [] then d else x)"

text \<open>The property names that every object literal inherits from \<open>Object.prototype\<close>.\<close>

definition object_prototype_members :: "string list" where
  "object_prototype_members =
    [''constructor'', ''__proto__'', ''hasOwnProperty'', ''isPrototypeOf'',
     ''propertyIsEnumerable'', ''toLocaleString'', ''toString'', ''valueOf'',
     ''__defineGetter__'', ''__defineSetter__'', ''__lookupGetter__'', ''__lookupSetter__'']"

text \<open>
  \<open>statusMap[status] || 'needsAction'\<close>: an own entry of the literal, else an inherited
  member (all of them truthy), else the default; a missing status reads the key
  \<open>undefined\<close>, which the literal does not have.
\<close>

definition mapOutlookResponseStatus :: "string option \<Rightarrow> js_status" where
  "mapOutlookResponseStatus status =
    (case status of
       None \<Rightarrow> Text ''needsAction''
     | Some st \<Rightarrow>
        (case map_of [(''accepted'', ''accepted''),
                      (''tentativelyAccepted'', ''tentative''),
                      (''declined'', ''declined''),
                      (''notResponded'', ''needsAction''),
                      (''none'', ''needsAction'')] st of
           None \<Rightarrow> if st \<in> set object_prototype_members then Inherited st
                    else Text ''needsAction''
         | Some mapped \<Rightarrow> Text mapped))"

text \<open>\<open>address.split('@')[0]\<close>.\<close>

definition before_at :: "string \<Rightarrow> string" where
  "before_at address = takeWhile (\<lambda>c. c \<noteq> CHR ''@'') address"

definition parseOutlookAttendee :: "outlook_attendee \<Rightarrow> attendee" where
  "parseOutlookAttendee a =
    \<lparr> name_att = (case oa_name a of
                    None \<Rightarrow> map_option before_at (oa_address a)
                  | Some n \<Rightarrow> if n = [] then map_option before_at (oa_address a) else Some n),
      email = oa_address a,
      responseStatus = mapOutlookResponseStatus (oa_response a),
      self = False \<rparr>"

definition parseOutlookEvents :: "outlook_item list \<Rightarrow> event list" where
  "parseOutlookEvents items =
    map (\<lambda>item.
          \<lparr> id_ev = ''outlook_'' @ oi_id item,
            title = Some (or_else (oi_subject item) ''Untitled Meeting''),
            startTime = oi_start item,
            endTime = (case oi_end item of Undefined \<Rightarrow> Unparseable | Null \<Rightarrow> Unparseable
                       | Unparseable \<Rightarrow> Unparseable | Instant ms \<Rightarrow> Instant ms),
            attendees = Some (map parseOutlookAttendee
                                (case oi_attendees item of None \<Rightarrow> [] | Some as \<Rightarrow> as)),
            meetingLink = oi_meetingLink item,
            description = Some (or_else (oi_bodyPreview item) []),
            location = Some (or_else (oi_location item) []),
            source = Some ''outlook-api'',
            hasConflict = False, conflictCount = 0 \<rparr>)
        (filter (\<lambda>item. truthy (oi_start item)) items)"

text \<open>The Google Calendar API item and its parser, in the same way.\<close>

record google_attendee =
  ga_displayName :: "string option"
  ga_email :: "string option"
  ga_responseStatus :: "string option"
  ga_self :: "bool option"

record google_item =
  gi_id :: string
  gi_summary :: "string option"
  gi_start :: js_time
  gi_end :: js_time
  gi_location :: "string option"
  gi_description :: "string option"
  gi_meetingLink :: "string option"
  gi_attendees :: "google_attendee list option"

definition parseGoogleAttendee :: "google_attendee \<Rightarrow> attendee" where
  "parseGoogleAttendee a =
    \<lparr> name_att = (case ga_displayName a of
                    None \<Rightarrow> map_option before_at (ga_email a)
                  | Some n \<Rightarrow> if n = [] then map_option before_at (ga_email a) else Some n),
      email = ga_email a,
      responseStatus = Text (or_else (ga_responseStatus a) ''needsAction''),
      self = (case ga_self a of None \<Rightarrow> False | Some b \<Rightarrow> b) \<rparr>"

definition parseGoogleEvents :: "google_item list \<Rightarrow> event list" where
  "parseGoogleEvents items =
    map (\<lambda>item.
          \<lparr> id_ev = gi_id item,
            title = Some (or_else (gi_summary item) ''Untitled Meeting''),
            startTime = gi_start item,
            endTime = gi_end item,
            attendees = Some (map parseGoogleAttendee
                                (case gi_attendees item of None \<Rightarrow> [] | Some as \<Rightarrow> as)),
            meetingLink = gi_meetingLink item,
            description = Some (or_else (gi_description item) []),
            location = Some (or_else (gi_location item) []),
            source = Some ''google-api'',
            hasConflict = False, conflictCount = 0 \<rparr>)
        (filter (\<lambda>item. truthy (gi_start item)) items)"

text \<open>
  A meeting on 15 January 2024 at 9:00 UTC that the user has declined, as each provider
  API reports it.
\<close>

definition declined_outlook_item :: outlook_item where
  "declined_outlook_item =
    \<lparr> oi_id = ''AAMk1'', oi_subject = Some ''Budget review'',
      oi_start = Instant 1705309200000, oi_end = Instant 1705312800000,
      oi_location = None, oi_bodyPreview = None, oi_meetingLink = None,
      oi_attendees = Some [\<lparr> oa_name = Some ''Me'', oa_address = Some ''me@example.com'',
                              oa_response = Some ''declined'' \<rparr>] \<rparr>"

definition declined_google_item :: google_item where
  "declined_google_item =
    \<lparr> gi_id = ''g77'', gi_summary = Some ''Budget review'',
      gi_start = Instant 1705309200000, gi_end = Instant 1705312800000,
      gi_location = None, gi_description = None, gi_meetingLink = None,
      gi_attendees = Some [\<lparr> ga_displayName = Some ''Me'', ga_email = Some ''me@example.com'',
                              ga_responseStatus = Some ''declined'', ga_self = Some True \<rparr>] \<rparr>"

definition declined_outlook_event :: event where
  "declined_outlook_event =
    \<lparr> id_ev = ''outlook_AAMk1'', title = Some ''Budget review'',
      startTime = Instant 1705309200000, endTime = Instant 1705312800000,
      attendees = Some [\<lparr> name_att = Some ''Me'', email = Some ''me@example.com'',
                           responseStatus = Text ''declined'', self = False \<rparr>],
      meetingLink = None, description = Some [], location = Some [],
      source = Some ''outlook-api'', hasConflict = False, conflictCount = 0 \<rparr>"

section \<open>Notification dispatcher (src/background/notification-manager.js)\<close>

text \<open>
  The outcome of each call that the dispatcher makes to the host platform: whether the
  call resolves (\<open>True\<close>) or rejects. \<open>currentWindow\<close> is the focused window as top,
  left, width and height, \<open>None\<close> when it cannot be read; \<open>getContexts\<close> says whether
  an offscreen document is reported, \<open>None\<close> when the query is unavailable or fails;
  \<open>createDocument\<close> is \<open>None\<close> on success and the error message otherwise.
\<close>

record platform =
  notifications_create_ok :: bool
  currentWindow :: "(int \<times> int \<times> int \<times> int) option"
  windows_create_ok :: bool
  getContexts :: "bool option"
  createDocument :: "string option"
  sendMessage_ok :: bool
  recreate_createDocument_ok :: bool
  sendMessage_retry_ok :: bool
  setBadge_ok :: bool
  tabs_create_ok :: bool

text \<open>
  What a dispatch does that can be observed: the notification with identifier, title,
  message and whether it has the join button; the popup window with its position; the
  message sent to the offscreen document (sound, or speech with its text); badge text
  and colour; the tab opened on the meeting link; and the \<open>console.error\<close> line of a
  caught failure (lines written with \<open>console.log\<close> and \<open>console.warn\<close> are not
  recorded). The emoji of the notification title and of the badge are left out.
\<close>

datatype effect =
    NotificationCreated string string string bool
  | WindowCreated int int
  | SoundMessage
  | SpeakMessage string
  | BadgeText string
  | BadgeColor string
  | TabCreated string
  | ConsoleError string

definition NOTIFICATION_PREFIX :: string where
  "NOTIFICATION_PREFIX = ''pingmeet_''"

definition BADGE_URGENT :: string where
  "BADGE_URGENT = ''#FF0000''"

definition BADGE_WARNING :: string where
  "BADGE_WARNING = ''#FF6600''"

definition BADGE_DEFAULT :: string where
  "BADGE_DEFAULT = ''#4285F4''"

definition notificationTitle :: "int \<Rightarrow> string" where
  "notificationTitle minutes =
    ''Meeting starting '' @
    (if minutes = 1 then ''in 1 minute!''
     else if minutes < 60 then ''in '' @ showInt minutes @ '' minutes!''
     else
       (let hours = minutes div 60; mins = minutes mod 60
        in if mins > 0 then ''in '' @ showInt hours @ ''h '' @ showInt mins @ ''m!''
           else ''in '' @ showInt hours @ '' hour'' @ (if hours > 1 then ''s'' else []) @ ''!''))"

text \<open>\<open>showOSNotification\<close> has no handler of its own: a rejected create is thrown on.\<close>

definition showOSNotification :: "platform \<Rightarrow> settings \<Rightarrow> event \<Rightarrow> js_error + effect list" where
  "showOSNotification p st ev =
    (let notificationId = NOTIFICATION_PREFIX @ id_ev ev;
         minutes = (if reminderMinutes st = 0 then 2 else reminderMinutes st);
         ttl = notificationTitle minutes;
         message = or_else (title ev) ''Untitled Meeting'';
         buttons = has_link ev
     in if notifications_create_ok p
        then Inr [NotificationCreated notificationId ttl message buttons]
        else Inl (Error ''chrome.notifications.create''))"

definition calculateOptimalWindowPosition :: "platform \<Rightarrow> int \<times> int" where
  "calculateOptimalWindowPosition p =
    (case currentWindow p of
       Some (wtop, wleft, width, height) \<Rightarrow>
         (max 50 (wtop + (height - 280) div 3), max 50 (wleft + (width - 400) div 2))
     | None \<Rightarrow> (100, 100))"

definition showReminderWindow :: "platform \<Rightarrow> event \<Rightarrow> effect list" where
  "showReminderWindow p ev =
    (case calculateOptimalWindowPosition p of
       (wtop, wleft) \<Rightarrow>
         if windows_create_ok p then [WindowCreated wtop wleft]
         else [ConsoleError ''PingMeet: Error creating reminder window''])"

definition ensureOffscreenDocument :: "platform \<Rightarrow> js_error + unit" where
  "ensureOffscreenDocument p =
    (if getContexts p = Some True then Inr ()
     else
       (case createDocument p of
          None \<Rightarrow> Inr ()
        | Some msg \<Rightarrow>
            if includes_str msg ''single offscreen document'' then Inr () else Inl (Error msg)))"

text \<open>
  \<open>recreateOffscreenDocument\<close> logs the failure of its own \<open>createDocument\<close> and throws
  it on; the failure to close the old document is caught and only noted.
\<close>

definition recreateOffscreenDocument :: "platform \<Rightarrow> (js_error + unit) \<times> effect list" where
  "recreateOffscreenDocument p =
    (if recreate_createDocument_ok p then (Inr (), [])
     else (Inl (Error ''chrome.offscreen.createDocument''),
           [ConsoleError ''PingMeet: Error creating offscreen document:'']))"

definition playSound_nm :: "platform \<Rightarrow> effect list" where
  "playSound_nm p =
    (case ensureOffscreenDocument p of
       Inl err \<Rightarrow> [ConsoleError ''PingMeet: Error playing sound'']
     | Inr u \<Rightarrow>
         if sendMessage_ok p then [SoundMessage]
         else
           (case recreateOffscreenDocument p of
              (Inl err, logged) \<Rightarrow> logged @ [ConsoleError ''PingMeet: Error playing sound'']
            | (Inr u', logged) \<Rightarrow>
                if sendMessage_retry_ok p then logged @ [SoundMessage]
                else logged @ [ConsoleError ''PingMeet: Error playing sound'']))"

text \<open>\<open>Math.round((new Date(event.startTime) - new Date()) / 60000)\<close> as text.\<close>

definition minutesUntil :: "event \<Rightarrow> int \<Rightarrow> int option" where
  "minutesUntil ev now = map_option (\<lambda>start. (2 * (start - now) + 60000) div 120000) (getTime (startTime ev))"

definition speechText :: "event \<Rightarrow> int \<Rightarrow> string" where
  "speechText ev now =
    ''Meeting reminder: '' @ (case title ev of None \<Rightarrow> ''undefined'' | Some t \<Rightarrow> t) @
    '' starts in '' @ numString (minutesUntil ev now) @ '' minute'' @
    (if minutesUntil ev now = Some 1 then [] else ''s'') @ ''.''"

definition speakReminder :: "platform \<Rightarrow> int \<Rightarrow> event \<Rightarrow> effect list" where
  "speakReminder p now ev =
    (case ensureOffscreenDocument p of
       Inl err \<Rightarrow> [ConsoleError ''PingMeet: Error speaking reminder'']
     | Inr u \<Rightarrow>
         if sendMessage_ok p then [SpeakMessage (speechText ev now)]
         else
           (case recreateOffscreenDocument p of
              (Inl err, logged) \<Rightarrow> logged @ [ConsoleError ''PingMeet: Error speaking reminder'']
            | (Inr u', logged) \<Rightarrow>
                if sendMessage_retry_ok p then logged @ [SpeakMessage (speechText ev now)]
                else logged @ [ConsoleError ''PingMeet: Error speaking reminder'']))"

definition flashBadge :: "platform \<Rightarrow> int \<Rightarrow> effect list" where
  "flashBadge p minutes =
    (let colors = [BADGE_URGENT, BADGE_WARNING, BADGE_URGENT, BADGE_WARNING, BADGE_URGENT]
     in if setBadge_ok p
        then concat (map (\<lambda>c. [BadgeText ''(alarm clock)'', BadgeColor c]) colors) @
             [BadgeText (showInt minutes @ ''m''), BadgeColor BADGE_URGENT]
        else [ConsoleError ''PingMeet: Error flashing badge''])"

definition autoOpenMeeting :: "platform \<Rightarrow> string \<Rightarrow> effect list" where
  "autoOpenMeeting p url =
    (if tabs_create_ok p then [TabCreated url] else [ConsoleError ''PingMeet: Auto-open error''])"

text \<open>
  \<open>triggerAttention(event)\<close> at the instant \<open>now\<close>: the error it throws, if any, and
  what it did. The channels are awaited one after the other.
\<close>

definition triggerAttention ::
    "platform \<Rightarrow> settings \<Rightarrow> int \<Rightarrow> event \<Rightarrow> (js_error + unit) \<times> effect list" where
  "triggerAttention p st now ev =
    (case showOSNotification p st ev of
       Inl err \<Rightarrow> (Inl err, [])
     | Inr shown \<Rightarrow>
         (Inr (),
          shown @
          (if showPopup st then showReminderWindow p ev else []) @
          (if playSound st then playSound_nm p else []) @
          (if voiceReminder st then speakReminder p now ev else []) @
          flashBadge p (if reminderMinutes st = 0 then 2 else reminderMinutes st) @
          (case meetingLink ev of
             None \<Rightarrow> []
           | Some url \<Rightarrow> if autoOpen st \<and> url \<noteq> [] then autoOpenMeeting p url else [])))"

definition platform_ok :: platform where
  "platform_ok =
    \<lparr> notifications_create_ok = True, currentWindow = Some (100, 100, 1920, 1080),
      windows_create_ok = True, getContexts = Some False, createDocument = None,
      sendMessage_ok = True, recreate_createDocument_ok = True, sendMessage_retry_ok = True,
      setBadge_ok = True, tabs_create_ok = True \<rparr>"

section \<open>Token lifecycle (refreshGoogleToken, refreshOutlookToken, getValidToken)\<close>

text \<open>
  What one call of \<open>fetch\<close> on a provider's token endpoint comes to: the call rejects
  with a message, or it answers with a status that is not ok and a JSON body whose
  \<open>error\<close> and \<open>error_description\<close> may be present, or it answers ok with a token
  body. The network is a function from the attempt number to that outcome; the request
  parameters (refresh token, client id, client secret) are part of it.
\<close>

record token_response =
  access_token :: "string option"
  refresh_token :: "string option"
  expires_in :: "int option"

datatype fetch_result =
    FetchRejects string
  | HttpError nat "string option" "string option"
  | HttpOk token_response

datatype net_action = Fetch nat | GetAuthToken nat | Sleep int

text \<open>
  The body of the \<open>try\<close> block: the tokens, or the error thrown. A rejected
  \<open>fetch\<close> throws its own TypeError; a response that is not ok throws
  \<open>new Error(error.error_description || `Token refresh failed: ${response.status}`)\<close>.
\<close>

definition refresh_attempt :: "fetch_result \<Rightarrow> js_error + token_response" where
  "refresh_attempt r =
    (case r of
       FetchRejects msg \<Rightarrow> Inl (TypeError msg)
     | HttpError status err descr \<Rightarrow>
         Inl (Error (or_else descr (''Token refresh failed: '' @ showInt (int status))))
     | HttpOk tokens \<Rightarrow> Inr tokens)"

text \<open>\<open>error.message\<close>.\<close>

fun message :: "js_error \<Rightarrow> string" where
  "message (TypeError m) = m"
| "message (Error m) = m"

text \<open>The test in the \<open>catch\<close> block that stops the retries.\<close>

definition isAuthError :: "js_error \<Rightarrow> bool" where
  "isAuthError err =
    (includes_str (message err) ''invalid_grant'' \<or>
     includes_str (message err) ''expired'' \<or>
     includes_str (message err) ''revoked'')"

text \<open>
  The retry loop \<open>for (let attempt = 1; attempt <= retries; attempt++)\<close> with its local
  \<open>lastError\<close>; the list is the log of fetches and back-off waits made so far.
\<close>

function refresh_loop ::
    "(nat \<Rightarrow> fetch_result) \<Rightarrow> nat \<Rightarrow> nat \<Rightarrow> js_error option \<Rightarrow> net_action list
      \<Rightarrow> (js_error option + token_response) \<times> net_action list" where
  "refresh_loop net retries attempt lastError done =
    (if attempt \<le> retries then
       (case refresh_attempt (net attempt) of
          Inr tokens \<Rightarrow> (Inr tokens, done @ [Fetch attempt])
        | Inl err \<Rightarrow>
            if isAuthError err then (Inl (Some err), done @ [Fetch attempt])
            else refresh_loop net retries (Suc attempt) (Some err)
                   (done @ [Fetch attempt] @
                    (if attempt < retries then [Sleep (2 ^ attempt * 500)] else [])))
     else (Inl lastError, done))"
  by pat_completeness auto
termination
  by (relation "measure (\<lambda>(net, retries, attempt, lastError, done). Suc retries - attempt)") auto

declare refresh_loop.simps [simp del]

text \<open>
  Both refresh functions run this loop; the thrown value is \<open>None\<close> when \<open>lastError\<close>
  was never assigned (\<open>retries\<close> below one).
\<close>

definition refreshGoogleToken ::
    "(nat \<Rightarrow> fetch_result) \<Rightarrow> nat \<Rightarrow> (js_error option + token_response) \<times> net_action list" where
  "refreshGoogleToken net retries = refresh_loop net retries 1 None []"

definition refreshOutlookToken ::
    "(nat \<Rightarrow> fetch_result) \<Rightarrow> nat \<Rightarrow> (js_error option + token_response) \<times> net_action list" where
  "refreshOutlookToken net retries = refresh_loop net retries 1 None []"

text \<open>The stored record of one provider and the token part of the store.\<close>

record connection =
  connected :: bool
  accessToken :: "string option"
  refreshToken :: "string option"
  expiresAt :: "int option"
  authMode :: "string option"

record token_state =
  google :: "connection option"
  outlook :: "connection option"
  google_clientId :: "string option"
  outlook_clientId :: "string option"
  reconnect_notifications :: "string list"

text \<open>\<open>saveConnection(provider, { connected: false })\<close> replaces the whole record.\<close>

definition disconnected :: connection where
  "disconnected =
    \<lparr> connected = False, accessToken = None, refreshToken = None, expiresAt = None,
      authMode = None \<rparr>"

definition is_set :: "string option \<Rightarrow> bool" where
  "is_set v = (case v of None \<Rightarrow> False | Some x \<Rightarrow> x \<noteq> [])"

definition needs_refresh :: "connection \<Rightarrow> int \<Rightarrow> bool" where
  "needs_refresh c now =
    (case expiresAt c of None \<Rightarrow> False | Some e \<Rightarrow> e \<noteq> 0 \<and> now > e - 300000)"

text \<open>
  The retry loop of the simple mode, which asks the browser's identity service;
  \<open>identity k\<close> is the outcome of the \<open>k\<close>-th request, an error message or a token.
  The list is the log of the requests and of the back-off waits between them.
\<close>

definition isUserError :: "string \<Rightarrow> bool" where
  "isUserError msg =
    (includes_str msg ''user'' \<or> includes_str msg ''denied'' \<or>
     includes_str msg ''not signed in'')"

function simple_loop ::
    "(nat \<Rightarrow> string + string) \<Rightarrow> nat \<Rightarrow> nat \<Rightarrow> net_action list
      \<Rightarrow> string option \<times> net_action list" where
  "simple_loop identity maxRetries attempt done =
    (if attempt \<le> maxRetries then
       (case identity attempt of
          Inr newToken \<Rightarrow> (Some newToken, done @ [GetAuthToken attempt])
        | Inl msg \<Rightarrow>
            if isUserError msg then (None, done @ [GetAuthToken attempt])
            else simple_loop identity maxRetries (Suc attempt)
                   (done @ [GetAuthToken attempt] @
                    (if attempt < maxRetries then [Sleep (2 ^ attempt * 500)] else [])))
     else (None, done))"
  by pat_completeness auto
termination
  by (relation "measure (\<lambda>(identity, maxRetries, attempt, done). Suc maxRetries - attempt)") auto

declare simple_loop.simps [simp del]

definition give_up_google :: "token_state \<Rightarrow> token_state" where
  "give_up_google ts =
    ts\<lparr>google := Some disconnected,
       reconnect_notifications := reconnect_notifications ts @ [''Google Calendar'']\<rparr>"

text \<open>
  \<open>getValidToken()\<close>: the token returned (\<open>None\<close> is \<open>null\<close>), the store
  afterwards and the log of the refresh. \<open>now\<close> is what \<open>Date.now()\<close> reads, taken as
  one instant for the whole call: the time that the waits of the log take is not added to
  the expiry instant that is stored.
\<close>

definition getValidToken ::
    "(nat \<Rightarrow> fetch_result) \<Rightarrow> (nat \<Rightarrow> string + string) \<Rightarrow> int \<Rightarrow> token_state
      \<Rightarrow> string option \<times> token_state \<times> net_action list" where
  "getValidToken net identity now ts =
    (case google ts of
       None \<Rightarrow> (None, ts, [])
     | Some googleConnection \<Rightarrow>
         if connected googleConnection \<and> is_set (accessToken googleConnection) then
           (if needs_refresh googleConnection now then
              (if authMode googleConnection = Some ''simple'' then
                 (case simple_loop identity 3 1 [] of
                    (Some newToken, done) \<Rightarrow>
                      (Some newToken,
                       ts\<lparr>google := Some (googleConnection\<lparr>accessToken := Some newToken,
                                             expiresAt := Some (now + 3600 * 1000)\<rparr>)\<rparr>,
                       done)
                  | (None, done) \<Rightarrow> (None, give_up_google ts, done))
               else if is_set (refreshToken googleConnection) then
                 (if is_set (google_clientId ts) then
                    (case refreshGoogleToken net 3 of
                       (Inr tokens, done) \<Rightarrow>
                         (access_token tokens,
                          ts\<lparr>google := Some (googleConnection\<lparr>
                                accessToken := access_token tokens,
                                refreshToken := (if is_set (refresh_token tokens)
                                                 then refresh_token tokens
                                                 else refreshToken googleConnection),
                                expiresAt := map_option (\<lambda>secs. now + secs * 1000)
                                               (expires_in tokens)\<rparr>)\<rparr>,
                          done)
                     | (Inl err, done) \<Rightarrow> (None, give_up_google ts, done))
                  else (None, give_up_google ts, []))
               else (None, give_up_google ts, []))
            else (accessToken googleConnection, ts, []))
         else (None, ts, []))"

text \<open>
  A connected Google record whose access token has run out, and a token endpoint that
  answers every refresh with status 400 and the body
  \<open>{"error": "invalid_grant", "error_description": "Bad Request"}\<close>.
\<close>

definition expired_state :: token_state where
  "expired_state =
    \<lparr> google = Some \<lparr> connected = True, accessToken = Some ''ya29.old'',
                       refreshToken = Some ''1//refresh'', expiresAt = Some 1705300000000,
                       authMode = None \<rparr>,
      outlook = None, google_clientId = Some ''client-id'', outlook_clientId = None,
      reconnect_notifications = [] \<rparr>"

definition invalid_grant_net :: "nat \<Rightarrow> fetch_result" where
  "invalid_grant_net attempt = HttpError 400 (Some ''invalid_grant'') (Some ''Bad Request'')"

section \<open>Ingestion (detectConflicts, getConflictingEvents, updateBadge, handleNewEvents)\<close>

fun js_le_real :: "real option \<Rightarrow> real \<Rightarrow> bool" where
  "js_le_real (Some x) y = (x \<le> y)"
| "js_le_real None y = False"

record conflict =
  conflict_events :: "event \<times> event"
  conflict_message :: string
  conflict_severity :: severity

text \<open>
  \<open>[...events].sort((a, b) => new Date(a.startTime) - new Date(b.startTime))\<close>, a stable
  sort: an event is put in front of the first one that does not start before it. When a
  start time does not parse the comparison yields \<open>NaN\<close> and the order that JavaScript
  produces is implementation-defined; the model then keeps the events in their order.
\<close>

fun insert_by_start :: "event \<Rightarrow> event list \<Rightarrow> event list" where
  "insert_by_start ev [] = [ev]"
| "insert_by_start ev (x # xs) =
    (if js_lt (getTime (startTime x)) (getTime (startTime ev)) then x # insert_by_start ev xs
     else ev # x # xs)"

definition sort_by_start :: "event list \<Rightarrow> event list" where
  "sort_by_start evs = foldr insert_by_start evs []"

definition title_text :: "event \<Rightarrow> string" where
  "title_text ev = (case title ev of None \<Rightarrow> ''undefined'' | Some t \<Rightarrow> t)"

definition overlap_conflict :: "event \<Rightarrow> event \<Rightarrow> conflict" where
  "overlap_conflict event1 event2 =
    \<lparr> conflict_events = (event1, event2),
      conflict_message = [CHR 0x22] @ title_text event1 @ [CHR 0x22] @ '' overlaps with '' @
                         [CHR 0x22] @ title_text event2 @ [CHR 0x22],
      conflict_severity = calculateSeverity event1 event2 \<rparr>"

text \<open>The two nested loops over the sorted events, \<open>j\<close> running above \<open>i\<close>.\<close>

fun conflicts_from :: "event list \<Rightarrow> conflict list" where
  "conflicts_from [] = []"
| "conflicts_from (event1 # rest) =
    map (overlap_conflict event1) (filter (eventsOverlap event1) rest) @ conflicts_from rest"

definition detectConflicts :: "event list \<Rightarrow> conflict list" where
  "detectConflicts events = conflicts_from (sort_by_start events)"

definition getConflictingEvents :: "event \<Rightarrow> event list \<Rightarrow> event list" where
  "getConflictingEvents ev allEvents =
    filter (\<lambda>otherEvent. if id_ev otherEvent = id_ev ev then False
                         else eventsOverlap ev otherEvent) allEvents"

definition updateBadge :: "int \<Rightarrow> bool \<Rightarrow> sched_state \<Rightarrow> sched_state" where
  "updateBadge count hasConflicts s =
    (if count > 0
     then s\<lparr>badgeText := showInt count,
            badgeColor := (if hasConflicts then BADGE_WARNING else BADGE_DEFAULT)\<rparr>
     else s\<lparr>badgeText := []\<rparr>)"

text \<open>The callbacks of the two filters and of the annotation loop in \<open>handleNewEvents\<close>.\<close>

definition keepSource :: "sched_state \<Rightarrow> event \<Rightarrow> bool" where
  "keepSource s ev =
    (let src = or_else (source ev) []
     in if apiGoogle s \<and> src = ''google-dom'' then False
        else if apiOutlook s \<and> src = ''outlook-dom'' then False
        else True)"

definition isUpcoming :: "int \<Rightarrow> event \<Rightarrow> bool" where
  "isUpcoming now ev =
    (if truthy (startTime ev)
     then (let hoursUntil = js_div (js_sub (getTime (startTime ev)) (Some now)) (60 * 60 * 1000)
           in js_gt_real hoursUntil 0 \<and> js_le_real hoursUntil 24)
     else False)"

definition annotateConflict :: "event list \<Rightarrow> event \<Rightarrow> event" where
  "annotateConflict uniqueEvents ev =
    (let eventConflicts = getConflictingEvents ev uniqueEvents
     in if length eventConflicts > 0
        then ev\<lparr>hasConflict := True, conflictCount := length eventConflicts\<rparr>
        else ev)"

text \<open>
  \<open>handleNewEvents(events)\<close>: \<open>now\<close> is the instant read for the 24-hour filter and
  \<open>clock k\<close> the instant at which the \<open>k\<close>-th reminder is scheduled. The result is the
  error thrown or the state afterwards.
\<close>

definition handleNewEvents ::
    "event list \<Rightarrow> int \<Rightarrow> (nat \<Rightarrow> int) \<Rightarrow> sched_state \<Rightarrow> js_error + sched_state" where
  "handleNewEvents events now clock s =
    (if events = [] then Inr s
     else
       (let filteredEvents = filter (keepSource s) events;
            upcoming = filter (isUpcoming now) filteredEvents
        in case deduplicateEvents upcoming of
             Inl err \<Rightarrow> Inl err
           | Inr uniqueEvents \<Rightarrow>
               (let conflicts = detectConflicts uniqueEvents;
                    annotated =
                      (if conflicts \<noteq> [] then map (annotateConflict uniqueEvents) uniqueEvents
                       else uniqueEvents)
                in Inr (updateBadge (int (length annotated)) (conflicts \<noteq> [])
                          (scheduleAll clock 0 annotated (saveEvents annotated s))))))"

text \<open>
  Reports that the page script can send next to the Google report of the meeting at
  9:00: one without a title, as \<open>normalizeEventData\<close> emits it for an item read from
  the page's component state that has an identifier but no summary, one without a start
  time and one whose start time does not parse.
\<close>

definition ev_untitled :: event where
  "ev_untitled =
    \<lparr> id_ev = ''u1'', title = None, startTime = Instant 1705311000000, endTime = Undefined,
      attendees = Some [], meetingLink = None, description = None, location = None,
      source = Some ''react-state'', hasConflict = False, conflictCount = 0 \<rparr>"

definition ev_nostart :: event where
  "ev_nostart = ev_untitled\<lparr>id_ev := ''u2'', title := Some ''Lunch'', startTime := Undefined\<rparr>"

definition ev_badtime :: event where
  "ev_badtime = ev_untitled\<lparr>id_ev := ''u3'', title := Some ''Sync'', startTime := Unparseable\<rparr>"





section \<open>Properties of the conflict detector\<close>

lemma timeClip_Some: "timeClip x = Some y \<Longrightarrow> y = x \<and> timeClip y = Some y"
  by (simp add: timeClip_def split: if_splits)

lemma getTime_valid: "getTime t = Some x \<Longrightarrow> timeClip x = Some x"
  by (cases t) (auto simp: getTime_def timeClip_def split: if_splits)

lemma eventEnd_valid: "eventEnd e = Some x \<Longrightarrow> timeClip x = Some x"
  by (cases "endTime e"; cases "getTime (startTime e)")
     (auto simp: eventEnd_def plusOneHour_def dest: timeClip_Some)

lemma timeClip_max: "timeClip x = Some x \<Longrightarrow> timeClip y = Some y \<Longrightarrow> timeClip (max x y) = Some (max x y)"
  by (simp add: timeClip_def max_def split: if_splits)

lemma timeClip_min: "timeClip x = Some x \<Longrightarrow> timeClip y = Some y \<Longrightarrow> timeClip (min x y) = Some (min x y)"
  by (simp add: timeClip_def min_def split: if_splits)

lemma eventEnd_code:
  "(if truthy (endTime e) then getTime (endTime e)
    else newDate (js_add (getTime (startTime e)) (60 * 60 * 1000))) = eventEnd e"
  by (cases "endTime e"; cases "getTime (startTime e)")
     (simp_all add: truthy_def getTime_def timeClip_def eventEnd_def plusOneHour_def js_add_def newDate_def)

lemma js_lt_Some_iff: "js_lt a b \<longleftrightarrow> (\<exists>x y. a = Some x \<and> b = Some y \<and> x < y)"
  by (cases a; cases b) simp_all

lemma eventsOverlap_eventEnd:
  "eventsOverlap a b \<longleftrightarrow>
     js_lt (getTime (startTime a)) (eventEnd b) \<and> js_lt (getTime (startTime b)) (eventEnd a)"
  unfolding eventsOverlap_def Let_def eventEnd_code by (rule refl)

lemma calculateSeverity_eventEnd:
  "calculateSeverity a b =
    (if js_strict_eq (getTime (startTime a)) (getTime (startTime b)) then High
     else if js_gt_real (js_div (js_sub (newDate (js_min (eventEnd a) (eventEnd b)))
                 (newDate (js_max (getTime (startTime a)) (getTime (startTime b)))))
                 (1000 * 60)) 30
          then High
     else if js_gt_real (js_div (js_sub (newDate (js_min (eventEnd a) (eventEnd b)))
                 (newDate (js_max (getTime (startTime a)) (getTime (startTime b)))))
                 (1000 * 60)) 15
          then Medium
     else Low)"
  unfolding calculateSeverity_def Let_def eventEnd_code by (rule refl)

lemma gt_minutes:
  "js_gt_real (js_div (Some d) (1000 * 60)) (real_of_int m) \<longleftrightarrow> d > m * 60000"
proof -
  have "real_of_int d / 60000 > real_of_int m \<longleftrightarrow> real_of_int d > real_of_int (m * 60000)"
    by (simp add: field_simps)
  also have "\<dots> \<longleftrightarrow> d > m * 60000"
    by (simp only: of_int_less_iff)
  finally show ?thesis by (simp add: js_div_def)
qed

lemma gt_30_minutes: "js_gt_real (js_div (Some d) 60000) 30 \<longleftrightarrow> d > 1800000"
  using gt_minutes [of d 30] by simp

lemma gt_15_minutes: "js_gt_real (js_div (Some d) 60000) 15 \<longleftrightarrow> d > 900000"
  using gt_minutes [of d 15] by simp

lemma eventsOverlap_values:
  "eventsOverlap a b \<longleftrightarrow>
      (\<exists>s1 e1 s2 e2. getTime (startTime a) = Some s1 \<and> eventEnd a = Some e1 \<and>
         getTime (startTime b) = Some s2 \<and> eventEnd b = Some e2 \<and> s1 < e2 \<and> s2 < e1)"
  unfolding eventsOverlap_eventEnd js_lt_Some_iff by auto

text \<open>
  C7. Two events overlap exactly when each starts strictly before the other ends, the end
  of an event without an end time being its start plus one hour; the intervals are
  half-open, so an event that ends at the instant another starts does not overlap it.
  Starts and ends are instants that a \<open>Date\<close> can hold: an event whose start or end
  is not such an instant (missing, unparseable, or a default end beyond the last
  instant of a \<open>Date\<close>) overlaps nothing.
\<close>

theorem eventsOverlap_half_open:
  "(eventsOverlap a b \<longleftrightarrow>
      (\<exists>s1 e1 s2 e2. getTime (startTime a) = Some s1 \<and> eventEnd a = Some e1 \<and>
         getTime (startTime b) = Some s2 \<and> eventEnd b = Some e2 \<and> s1 < e2 \<and> s2 < e1))
   \<and> (eventEnd a = getTime (startTime b) \<longrightarrow> \<not> eventsOverlap a b)"
proof
  show "eventsOverlap a b \<longleftrightarrow>
      (\<exists>s1 e1 s2 e2. getTime (startTime a) = Some s1 \<and> eventEnd a = Some e1 \<and>
         getTime (startTime b) = Some s2 \<and> eventEnd b = Some e2 \<and> s1 < e2 \<and> s2 < e1)"
    unfolding eventsOverlap_eventEnd js_lt_Some_iff by auto
next
  show "eventEnd a = getTime (startTime b) \<longrightarrow> \<not> eventsOverlap a b"
    unfolding eventsOverlap_eventEnd js_lt_Some_iff by auto
qed

theorem eventsOverlap_half_open_witness:
  "eventEnd ev_A = getTime (startTime ev_C) \<and> \<not> eventsOverlap ev_A ev_C \<and>
   eventsOverlap ev_A ev_B \<and> eventsOverlap ev_B ev_C"
proof -
  have touch: "eventEnd ev_A = getTime (startTime ev_C)"
    by (simp add: ev_A_def ev_C_def mk_event_def eventEnd_def plusOneHour_def getTime_def timeClip_def)
  have ab: "eventsOverlap ev_A ev_B"
    by (simp add: ev_A_def ev_B_def mk_event_def eventsOverlap_def truthy_def getTime_def timeClip_def)
  have bc: "eventsOverlap ev_B ev_C"
    by (simp add: ev_B_def ev_C_def mk_event_def eventsOverlap_def truthy_def getTime_def timeClip_def
        js_add_def newDate_def)
  from touch eventsOverlap_half_open [of ev_A ev_C] have "\<not> eventsOverlap ev_A ev_C"
    by blast
  with touch ab bc show ?thesis by simp
qed

text \<open>
  C8. For a pair of overlapping events the severity is high when both start at the same
  instant; otherwise it is high when the overlap lasts strictly more than 30 minutes,
  medium when strictly more than 15 minutes, and low otherwise. An overlap of exactly
  30 minutes between events with different starts is therefore medium.
\<close>

theorem calculateSeverity_bands:
  assumes "eventsOverlap a b"
  shows "\<exists>s1 e1 s2 e2. getTime (startTime a) = Some s1 \<and> eventEnd a = Some e1 \<and>
           getTime (startTime b) = Some s2 \<and> eventEnd b = Some e2 \<and>
           calculateSeverity a b =
             (if s1 = s2 then High
              else if min e1 e2 - max s1 s2 > 30 * 60000 then High
              else if min e1 e2 - max s1 s2 > 15 * 60000 then Medium
              else Low)"
proof -
  from assms obtain s1 e1 s2 e2 where
    v: "getTime (startTime a) = Some s1" "eventEnd a = Some e1"
       "getTime (startTime b) = Some s2" "eventEnd b = Some e2"
    using eventsOverlap_values [of a b] by blast
  have "calculateSeverity a b =
          (if s1 = s2 then High
           else if min e1 e2 - max s1 s2 > 30 * 60000 then High
           else if min e1 e2 - max s1 s2 > 15 * 60000 then Medium
           else Low)"
    unfolding calculateSeverity_eventEnd v
    using timeClip_max [OF getTime_valid [OF v(1)] getTime_valid [OF v(3)]]
          timeClip_min [OF eventEnd_valid [OF v(2)] eventEnd_valid [OF v(4)]]
    by (simp add: newDate_def gt_30_minutes gt_15_minutes)
  with v show ?thesis by blast
qed

theorem calculateSeverity_bands_witness:
  "eventsOverlap ev_A ev_B \<and> calculateSeverity ev_A ev_B = Medium"
proof -
  have ab: "eventsOverlap ev_A ev_B"
    by (simp add: ev_A_def ev_B_def mk_event_def eventsOverlap_def truthy_def getTime_def timeClip_def)
  have "getTime (startTime ev_A) = Some 1705309200000" "eventEnd ev_A = Some 1705312800000"
       "getTime (startTime ev_B) = Some 1705311000000" "eventEnd ev_B = Some 1705314600000"
    by (simp_all add: ev_A_def ev_B_def mk_event_def eventEnd_def plusOneHour_def getTime_def timeClip_def)
  with calculateSeverity_bands [OF ab] have "calculateSeverity ev_A ev_B = Medium"
    by auto
  with ab show ?thesis by simp
qed

section \<open>Properties of the event reconciler\<close>


lemma key_google: "dedupKey ev_google = Inr ''team sync_1705309200000''"
  by (simp add: dedupKey_def ev_google_def roundedTime_def getTime_def timeClip_def numString_def showInt_def
      digits.simps digit_char_def trim_def toLowerCase_def lower_char_def is_ws_def)

lemma key_scrape: "dedupKey ev_scrape = Inr ''team sync_1705309200000''"
  by (simp add: dedupKey_def ev_scrape_def roundedTime_def getTime_def timeClip_def numString_def showInt_def
      digits.simps digit_char_def trim_def toLowerCase_def lower_char_def is_ws_def)
























lemma reconcile_append: "reconcile ex (xs @ ys) = reconcile (reconcile ex xs) ys"
  by (simp add: reconcile_def)




lemma rich_other: "richness ev_other = 0"
  by (simp add: richness_def ev_other_def mk_event_def has_link_def length_or_0_def)






lemma sep_unique:
  assumes "t1 @ c # n1 = t2 @ c # n2" "c \<notin> set n1" "c \<notin> set n2"
  shows "t1 = t2 \<and> n1 = n2"
  using assms
proof (induction t1 arbitrary: t2)
  case Nil
  then show ?case by (cases t2) auto
next
  case (Cons x t1)
  then show ?case by (cases t2) auto
qed

lemma digit_char_in: "digit_char n \<in> set ''0123456789''"
proof -
  have "nat (n mod 10) < length ''0123456789''" by simp
  then show ?thesis unfolding digit_char_def by (rule nth_mem)
qed

lemma set_digits: "set (digits n) \<subseteq> set ''0123456789''"
proof (induction n rule: digits.induct)
  case (1 n)
  show ?case
  proof (cases "n < 10")
    case True
    then show ?thesis using digit_char_in [of n] by (subst digits.simps) simp
  next
    case False
    with 1 digit_char_in [of n] show ?thesis by (subst digits.simps) simp
  qed
qed

lemma underscore_notin_numString: "CHR ''_'' \<notin> set (numString v)"
proof (cases v)
  case None
  then show ?thesis by (simp add: numString_def)
next
  case (Some i)
  have "CHR ''_'' \<notin> set (digits m)" for m
    using set_digits [of m] by auto
  with Some show ?thesis by (simp add: numString_def showInt_def)
qed

text \<open>
  The reconciler's key is the lower-cased, trimmed title followed by the start time
  rounded down to the minute; the scheduler's alarm name is built from the same two
  parts, but it also replaces every run of whitespace inside the title by a hyphen. Two
  events with one reconciler key therefore always get one alarm name.
\<close>

lemma dedupKey_eq_alarmName_eq:
  assumes "dedupKey a = Inr k" and "dedupKey b = Inr k"
  shows "alarmName a = alarmName b"
proof -
  from assms(1) obtain ta where ta: "title a = Some ta"
    and ka: "k = trim (toLowerCase ta) @ CHR ''_'' # numString (roundedTime (startTime a))"
    by (auto simp: dedupKey_def split: option.splits)
  from assms(2) obtain tb where tb: "title b = Some tb"
    and kb: "k = trim (toLowerCase tb) @ CHR ''_'' # numString (roundedTime (startTime b))"
    by (auto simp: dedupKey_def split: option.splits)
  from ka kb have "trim (toLowerCase ta) = trim (toLowerCase tb) \<and>
      numString (roundedTime (startTime a)) = numString (roundedTime (startTime b))"
    by (intro sep_unique [where c = "CHR ''_''"]) (simp_all add: underscore_notin_numString)
  with ta tb show ?thesis by (simp add: alarmName_def)
qed

lemma key_gap: "dedupKey ev_gap = Inr ''team  sync_1705309200000''"
  by (simp add: dedupKey_def ev_gap_def ev_scrape_def roundedTime_def getTime_def timeClip_def
      numString_def showInt_def digits.simps digit_char_def trim_def toLowerCase_def
      lower_char_def is_ws_def)

lemma name_gap: "alarmName ev_gap = ''meeting_team-sync_1705309200000''"
  by (simp add: alarmName_def ev_gap_def ev_scrape_def roundedTime_def getTime_def timeClip_def
      numString_def showInt_def digits.simps digit_char_def trim_def toLowerCase_def
      lower_char_def is_ws_def replaceWhitespace_def MEETING_PREFIX_def)

lemma name_scrape: "alarmName ev_scrape = ''meeting_team-sync_1705309200000''"
  by (simp add: alarmName_def ev_scrape_def roundedTime_def getTime_def timeClip_def
      numString_def showInt_def digits.simps digit_char_def trim_def toLowerCase_def
      lower_char_def is_ws_def replaceWhitespace_def MEETING_PREFIX_def)

text \<open>
  C3. The two keys are meant to come from one normalisation of the title, lower-cased and
  with whitespace collapsed. The reconciler does not collapse whitespace: for two reports
  of one meeting whose titles differ only in the spaces between the words, the scheduler
  derives one alarm name and the reconciler two keys, so \<open>deduplicateEvents\<close> keeps
  both reports as separate meetings.
\<close>

theorem dedupKey_not_whitespace_collapsed:
  "title ev_gap = Some ''Team  Sync'' \<and> title ev_scrape = Some '' team sync'' \<and>
   startTime ev_gap = startTime ev_scrape \<and>
   alarmName ev_gap = ''meeting_team-sync_1705309200000'' \<and>
   alarmName ev_scrape = ''meeting_team-sync_1705309200000'' \<and>
   dedupKey ev_gap = Inr ''team  sync_1705309200000'' \<and>
   dedupKey ev_scrape = Inr ''team sync_1705309200000'' \<and>
   deduplicateEvents [ev_gap, ev_scrape] = Inr [ev_gap, ev_scrape]"
  by (simp add: key_gap key_scrape name_gap name_scrape deduplicateEvents_def)
    (simp add: ev_gap_def ev_scrape_def)

section \<open>Properties of the reminder scheduler\<close>

text \<open>Reading the settings changes at most the field \<open>useSyncStorage\<close>.\<close>

lemma getSettings_state:
  "snd (getSettings s) = s \<or> snd (getSettings s) = s\<lparr>useSyncStorage := False\<rparr>"
  by (simp add: getSettings_def split: option.splits)

lemma getSettings_alarms: "alarms (snd (getSettings s)) = alarms s"
  using getSettings_state [of s] by auto

lemma getSettings_timer_calls: "timer_calls (snd (getSettings s)) = timer_calls s"
  using getSettings_state [of s] by auto

lemma getSettings_default:
  "useSyncStorage s \<Longrightarrow> sync_available s \<Longrightarrow> sync_settings s = None
     \<Longrightarrow> getSettings s = (DEFAULT_SETTINGS, s)"
  by (simp add: getSettings_def)

lemma scheduleReminder_noop:
  "alarms s (alarmName ev) = Some w \<Longrightarrow> scheduleReminder ev now s = s"
  by (simp add: scheduleReminder_def)

lemma scheduleReminder_cases:
  "scheduleReminder ev now s = s \<or> scheduleReminder ev now s = snd (getSettings s) \<or>
   (alarms s (alarmName ev) = None \<and>
    (\<exists>w. scheduleReminder ev now s =
           saveEvent (alarmName ev) ev (alarms_create (alarmName ev) w (snd (getSettings s)))))"
  by (auto simp: scheduleReminder_def Let_def split: option.splits prod.splits)

lemma scheduleReminder_creates:
  assumes "truthy (startTime ev)" and "\<not> userDeclined ev" and "alarms s (alarmName ev) = None"
    and "getSettings s = (st, s')"
    and "newDate (js_add (getTime (startTime ev)) (- (reminderMinutes st * 60000))) = Some w"
    and "w > now"
  shows "scheduleReminder ev now s = saveEvent (alarmName ev) ev (alarms_create (alarmName ev) w s')"
  using assms by (simp add: scheduleReminder_def Let_def)

lemma createCount_getSettings: "createCount n (snd (getSettings s)) = createCount n s"
  by (simp add: createCount_def getSettings_timer_calls)

lemma createCount_create:
  "createCount n (saveEvent k ev (alarms_create m w s)) = createCount n s + (if m = n then 1 else 0)"
  by (simp add: createCount_def saveEvent_def alarms_create_def Let_def)

lemma alarms_create_lookup:
  "alarms (saveEvent k ev (alarms_create m w s)) n = (if n = m then Some w else alarms s n)"
  by (simp add: saveEvent_def alarms_create_def Let_def)

lemma scheduleReminder_alarm_kept:
  "alarms s n = Some w \<Longrightarrow> alarms (scheduleReminder ev now s) n = Some w"
  using scheduleReminder_cases [of ev now s]
  by (auto simp: alarms_create_lookup getSettings_alarms)

lemma scheduleReminder_count_kept:
  "alarms s n = Some w \<Longrightarrow> createCount n (scheduleReminder ev now s) = createCount n s"
  using scheduleReminder_cases [of ev now s]
  by (auto simp: createCount_create createCount_getSettings)

text \<open>The number of creations under one name, plus one while no alarm of that name is live.\<close>

lemma scheduleReminder_budget:
  "createCount n (scheduleReminder ev now s) + (if alarms (scheduleReminder ev now s) n = None then 1 else 0)
     \<le> createCount n s + (if alarms s n = None then 1 else 0)"
  using scheduleReminder_cases [of ev now s]
  by (auto simp: createCount_create alarms_create_lookup createCount_getSettings
      getSettings_alarms split: if_splits)

lemma scheduleAll_alarm_kept:
  "alarms s n = Some w \<Longrightarrow> alarms (scheduleAll clock k evs s) n = Some w"
  by (induction evs arbitrary: k s) (simp_all add: scheduleReminder_alarm_kept)

lemma scheduleAll_count_kept:
  "alarms s n = Some w \<Longrightarrow> createCount n (scheduleAll clock k evs s) = createCount n s"
  by (induction evs arbitrary: k s) (simp_all add: scheduleReminder_alarm_kept scheduleReminder_count_kept)

lemma scheduleAll_budget:
  "createCount n (scheduleAll clock k evs s) + (if alarms (scheduleAll clock k evs s) n = None then 1 else 0)
     \<le> createCount n s + (if alarms s n = None then 1 else 0)"
proof (induction evs arbitrary: k s)
  case Nil
  show ?case by simp
next
  case (Cons ev evs)
  have "createCount n (scheduleAll clock (Suc k) evs (scheduleReminder ev (clock k) s)) +
        (if alarms (scheduleAll clock (Suc k) evs (scheduleReminder ev (clock k) s)) n = None then 1 else 0)
        \<le> createCount n (scheduleReminder ev (clock k) s) +
           (if alarms (scheduleReminder ev (clock k) s) n = None then 1 else 0)"
    by (rule Cons.IH)
  also have "\<dots> \<le> createCount n s + (if alarms s n = None then 1 else 0)"
    by (rule scheduleReminder_budget)
  finally show ?case by simp
qed

lemma restart_alarms: "alarms (restart s) = alarms s"
  by (simp add: restart_def)

lemma restart_createCount: "createCount n (restart s) = createCount n s"
  by (simp add: restart_def createCount_def)

text \<open>
  The first call, then anything that keeps alarms and call log (nothing, or a restart),
  then a walk over any events, then the second call.
\<close>

lemma single_trigger_general:
  assumes same: "alarmName e2 = alarmName e1"
    and s1_def: "s1 = scheduleReminder e1 now1 s"
    and kept: "alarms s1' = alarms s1" "timer_calls s1' = timer_calls s1"
    and s2_def: "s2 = scheduleAll clock k evs s1'"
  shows "createCount (alarmName e1) (scheduleReminder e2 now2 s2) \<le> createCount (alarmName e1) s + 1"
    and "alarms s1 (alarmName e1) \<noteq> None \<Longrightarrow>
           scheduleReminder e2 now2 s2 = s2 \<and> alarms s2 (alarmName e1) = alarms s1 (alarmName e1) \<and>
           createCount (alarmName e1) s2 = createCount (alarmName e1) s1"
proof -
  let ?n = "alarmName e1"
  have c1: "createCount ?n s1' = createCount ?n s1"
    by (simp add: createCount_def kept)
  have "createCount ?n (scheduleReminder e2 now2 s2)
          \<le> createCount ?n (scheduleReminder e2 now2 s2) +
             (if alarms (scheduleReminder e2 now2 s2) ?n = None then 1 else 0)"
    by simp
  also have "\<dots> \<le> createCount ?n s2 + (if alarms s2 ?n = None then 1 else 0)"
    by (rule scheduleReminder_budget)
  also have "\<dots> \<le> createCount ?n s1' + (if alarms s1' ?n = None then 1 else 0)"
    unfolding s2_def by (rule scheduleAll_budget)
  also have "\<dots> = createCount ?n s1 + (if alarms s1 ?n = None then 1 else 0)"
    by (simp add: c1 kept)
  also have "\<dots> \<le> createCount ?n s + (if alarms s ?n = None then 1 else 0)"
    unfolding s1_def by (rule scheduleReminder_budget)
  also have "\<dots> \<le> createCount ?n s + 1" by simp
  finally show "createCount ?n (scheduleReminder e2 now2 s2) \<le> createCount ?n s + 1" .
next
  assume "alarms s1 (alarmName e1) \<noteq> None"
  then obtain w where w: "alarms s1 (alarmName e1) = Some w" by auto
  then have w': "alarms s1' (alarmName e1) = Some w" by (simp add: kept)
  then have w2: "alarms s2 (alarmName e1) = Some w"
    unfolding s2_def by (rule scheduleAll_alarm_kept)
  then have "scheduleReminder e2 now2 s2 = s2"
    using same scheduleReminder_noop [of s2 e2 w now2] by simp
  moreover have "createCount (alarmName e1) s2 = createCount (alarmName e1) s1'"
    unfolding s2_def using w' by (rule scheduleAll_count_kept)
  moreover have "createCount (alarmName e1) s1' = createCount (alarmName e1) s1"
    by (simp add: createCount_def kept)
  ultimately show "scheduleReminder e2 now2 s2 = s2 \<and>
      alarms s2 (alarmName e1) = alarms s1 (alarmName e1) \<and>
      createCount (alarmName e1) s2 = createCount (alarmName e1) s1"
    using w w2 by simp
qed

text \<open>
  C1. Scheduling the same logical meeting twice never creates a second alarm under the
  derived name: over the first call, an optional restart of the service worker that
  walks the stored events again, and the second call, the timer facility is asked at
  most once to create an alarm of that name; and once the first call has left a live
  alarm, the restart's walk and the second call leave it as it is and the second call
  changes nothing at all.
\<close>

theorem scheduleReminder_single_trigger:
  assumes "alarmName e2 = alarmName e1"
  shows "createCount (alarmName e1) (scheduleReminder e2 now2 (scheduleReminder e1 now1 s))
           \<le> createCount (alarmName e1) s + 1
       \<and> createCount (alarmName e1)
            (scheduleReminder e2 now2 (loadStoredEvents clock (restart (scheduleReminder e1 now1 s))))
           \<le> createCount (alarmName e1) s + 1
       \<and> (alarms (scheduleReminder e1 now1 s) (alarmName e1) \<noteq> None \<longrightarrow>
            scheduleReminder e2 now2 (scheduleReminder e1 now1 s) = scheduleReminder e1 now1 s \<and>
            scheduleReminder e2 now2 (loadStoredEvents clock (restart (scheduleReminder e1 now1 s)))
              = loadStoredEvents clock (restart (scheduleReminder e1 now1 s)) \<and>
            alarms (loadStoredEvents clock (restart (scheduleReminder e1 now1 s))) (alarmName e1)
              = alarms (scheduleReminder e1 now1 s) (alarmName e1) \<and>
            createCount (alarmName e1) (loadStoredEvents clock (restart (scheduleReminder e1 now1 s)))
              = createCount (alarmName e1) (scheduleReminder e1 now1 s))"
  using single_trigger_general [OF assms refl refl refl refl,
          where ?now1.0 = now1 and s = s and clock = clock and k = 0 and evs = "[]" and ?now2.0 = now2]
        single_trigger_general [OF assms refl, of "restart (scheduleReminder e1 now1 s)" now1 s,
          OF _ _ refl,
          where clock = clock and k = 0
            and evs = "getEvents (restart (scheduleReminder e1 now1 s))" and ?now2.0 = now2]
  by (simp add: loadStoredEvents_def restart_def)

lemma name_google: "alarmName ev_google = ''meeting_team-sync_1705309200000''"
  by (simp add: alarmName_def ev_google_def roundedTime_def getTime_def timeClip_def numString_def
      showInt_def digits.simps digit_char_def replaceWhitespace_def trim_def toLowerCase_def
      lower_char_def is_ws_def MEETING_PREFIX_def)

lemma not_declined_google: "\<not> userDeclined ev_google"
  by (simp add: userDeclined_def ev_google_def)

text \<open>
  The Google report scheduled ten minutes before the start, in any state that has no
  alarm of its name and reads the default settings from the sync store.
\<close>

lemma schedule_google_fresh:
  assumes "alarms s ''meeting_team-sync_1705309200000'' = None"
    and "useSyncStorage s" and "sync_available s" and "sync_settings s = None"
  shows "scheduleReminder ev_google 1705308600000 s =
     saveEvent ''meeting_team-sync_1705309200000'' ev_google
       (alarms_create ''meeting_team-sync_1705309200000'' 1705309080000 s)"
proof -
  have "newDate (js_add (getTime (startTime ev_google)) (- (reminderMinutes DEFAULT_SETTINGS * 60000)))
          = Some 1705309080000"
    by (simp add: ev_google_def getTime_def timeClip_def js_add_def newDate_def DEFAULT_SETTINGS_def)
  moreover have "truthy (startTime ev_google)"
    by (simp add: ev_google_def truthy_def)
  ultimately show ?thesis
    using scheduleReminder_creates [of ev_google s DEFAULT_SETTINGS s 1705309080000 1705308600000]
      assms not_declined_google
    by (simp add: name_google getSettings_default)
qed

lemma schedule_google:
  "scheduleReminder ev_google 1705308600000 rewalk_state =
     saveEvent ''meeting_team-sync_1705309200000'' ev_google
       (alarms_create ''meeting_team-sync_1705309200000'' 1705309080000 rewalk_state)"
  by (rule schedule_google_fresh) (simp_all add: rewalk_state_def saveEvents_def initial_state_def)

theorem scheduleReminder_single_trigger_witness:
  "alarmName ev_scrape = alarmName ev_google \<and>
   alarms (scheduleReminder ev_google 1705308600000 rewalk_state) (alarmName ev_google)
     = Some 1705309080000 \<and>
   scheduleReminder ev_scrape 1705308900000 (scheduleReminder ev_google 1705308600000 rewalk_state)
     = scheduleReminder ev_google 1705308600000 rewalk_state \<and>
   createCount (alarmName ev_google)
     (scheduleReminder ev_scrape 1705308900000
        (loadStoredEvents (\<lambda>k. 1705308900000)
           (restart (scheduleReminder ev_google 1705308600000 rewalk_state)))) = 1"
proof -
  have same: "alarmName ev_scrape = alarmName ev_google"
    by (simp add: name_google name_scrape)
  have live: "alarms (scheduleReminder ev_google 1705308600000 rewalk_state) (alarmName ev_google)
      = Some 1705309080000"
    by (simp add: schedule_google name_google alarms_create_lookup)
  have one: "createCount (alarmName ev_google)
      (scheduleReminder ev_google 1705308600000 rewalk_state) = 1"
    unfolding schedule_google name_google createCount_create
    by (simp add: createCount_def rewalk_state_def saveEvents_def initial_state_def)
  from scheduleReminder_single_trigger [OF same, of 1705308900000 1705308600000 rewalk_state
      "\<lambda>k. 1705308900000"] live one
  show ?thesis using same by simp
qed

section \<open>Declined meetings\<close>

lemma scheduleReminder_declined_noop:
  "userDeclined ev \<Longrightarrow> scheduleReminder ev now s = s"
  by (simp add: scheduleReminder_def)

lemma find_self_parseOutlook: "find self (map parseOutlookAttendee as) = None"
  by (induction as) (simp_all add: parseOutlookAttendee_def)

lemma parseOutlookEvents_never_declined:
  "ev \<in> set (parseOutlookEvents items) \<Longrightarrow> \<not> userDeclined ev"
  by (auto simp: parseOutlookEvents_def userDeclined_def find_self_parseOutlook)

lemma parse_declined_outlook: "parseOutlookEvents [declined_outlook_item] = [declined_outlook_event]"
  by (simp add: parseOutlookEvents_def declined_outlook_item_def declined_outlook_event_def
      truthy_def or_else_def parseOutlookAttendee_def mapOutlookResponseStatus_def)

lemma name_declined_outlook:
  "alarmName declined_outlook_event = ''meeting_budget-review_1705309200000''"
  by (simp add: alarmName_def declined_outlook_event_def roundedTime_def getTime_def timeClip_def numString_def
      showInt_def digits.simps digit_char_def replaceWhitespace_def trim_def toLowerCase_def
      lower_char_def is_ws_def MEETING_PREFIX_def)

text \<open>
  C4. A meeting that the user has declined must never get a trigger, whichever producer
  reports it. \<open>scheduleReminder\<close> recognises the user's own attendee entry by its
  \<open>self\<close> flag, and \<open>parseOutlookEvents\<close> sets that flag to false on every
  attendee, so the check never applies to an event from the Outlook API: the declined
  meeting below is parsed with its status \<open>declined\<close> and still gets an alarm.
\<close>

theorem declined_outlook_meeting_scheduled:
  "parseOutlookEvents [declined_outlook_item] = [declined_outlook_event] \<and>
   map responseStatus (case attendees declined_outlook_event of None \<Rightarrow> [] | Some as \<Rightarrow> as)
     = [Text ''declined''] \<and>
   alarms (scheduleReminder declined_outlook_event 1705308600000 initial_state)
     ''meeting_budget-review_1705309200000'' = Some 1705309080000 \<and>
   timer_calls (scheduleReminder declined_outlook_event 1705308600000 initial_state)
     = [AlarmsCreate ''meeting_budget-review_1705309200000'' 1705309080000]"
proof -
  have nd: "\<not> userDeclined declined_outlook_event"
    by (simp add: userDeclined_def declined_outlook_event_def)
  have st: "truthy (startTime declined_outlook_event)"
    by (simp add: declined_outlook_event_def truthy_def)
  have rt: "newDate (js_add (getTime (startTime declined_outlook_event))
                (- (reminderMinutes DEFAULT_SETTINGS * 60000))) = Some 1705309080000"
    by (simp add: declined_outlook_event_def getTime_def timeClip_def js_add_def newDate_def
        DEFAULT_SETTINGS_def)
  have gs: "getSettings initial_state = (DEFAULT_SETTINGS, initial_state)"
    by (rule getSettings_default) (simp_all add: initial_state_def)
  have fresh: "alarms initial_state (alarmName declined_outlook_event) = None"
    by (simp add: initial_state_def)
  have sched: "scheduleReminder declined_outlook_event 1705308600000 initial_state =
      saveEvent ''meeting_budget-review_1705309200000'' declined_outlook_event
        (alarms_create ''meeting_budget-review_1705309200000'' 1705309080000 initial_state)"
    using scheduleReminder_creates [OF st nd fresh gs rt] by (simp add: name_declined_outlook)
  have "map responseStatus (case attendees declined_outlook_event of None \<Rightarrow> [] | Some as \<Rightarrow> as)
      = [Text ''declined'']"
    by (simp add: declined_outlook_event_def)
  then show ?thesis
    unfolding sched
    by (simp add: parse_declined_outlook saveEvent_def alarms_create_def initial_state_def Let_def)
qed

text \<open>The same meeting reported by the Google API, which carries the flag, is skipped.\<close>

lemma declined_google_meeting_skipped:
  "list_all userDeclined (parseGoogleEvents [declined_google_item]) \<and>
   scheduleAll clock 0 (parseGoogleEvents [declined_google_item]) initial_state = initial_state"
  by (simp add: parseGoogleEvents_def declined_google_item_def truthy_def userDeclined_def
      parseGoogleAttendee_def or_else_def scheduleReminder_def)

text \<open>
  Declining. \<open>handleDecline\<close> clears the alarm \<open>meeting_\<close> plus the event
  identifier and removes the snapshot \<open>alarm_\<close> plus the event identifier, while
  \<open>scheduleReminder\<close> names the alarm after title and start time and stores the
  snapshot under \<open>alarm_\<close> plus that whole alarm name. No identifier makes
  \<open>handleDecline\<close> remove both the alarm and the snapshot of a scheduled meeting.
\<close>

lemma handleDecline_never_both:
  assumes "alarms s nm = Some w" and "snapshots s (ALARM_PREFIX @ nm) = Some ev"
  shows "alarms (handleDecline eventId s) nm = Some w \<or>
         snapshots (handleDecline eventId s) (ALARM_PREFIX @ nm) = Some ev"
proof (cases "eventId = nm")
  case True
  have "MEETING_PREFIX @ nm \<noteq> nm"
  proof
    assume "MEETING_PREFIX @ nm = nm"
    then have "length (MEETING_PREFIX @ nm) = length nm" by simp
    then show False by (simp add: MEETING_PREFIX_def)
  qed
  with True assms show ?thesis
    by (simp add: handleDecline_def removeEvent_def alarms_clear_def Let_def)
next
  case False
  with assms show ?thesis
    by (simp add: handleDecline_def removeEvent_def alarms_clear_def Let_def)
qed

text \<open>
  C5. Declining a scheduled meeting should cancel its alarm and delete its snapshot. For
  the meeting below, scheduled and then declined with its event identifier, the alarm is
  still live with the same firing instant and the snapshot is still stored; the only
  alarm cleared is one that does not exist.
\<close>

theorem handleDecline_leaves_trigger:
  "id_ev ev_google = ''g123'' \<and>
   alarms (scheduleReminder ev_google 1705308600000 rewalk_state)
     ''meeting_team-sync_1705309200000'' = Some 1705309080000 \<and>
   alarms (handleDecline ''g123'' (scheduleReminder ev_google 1705308600000 rewalk_state))
     ''meeting_team-sync_1705309200000'' = Some 1705309080000 \<and>
   getEvent ''meeting_team-sync_1705309200000''
     (handleDecline ''g123'' (scheduleReminder ev_google 1705308600000 rewalk_state))
     = Some ev_google \<and>
   timer_calls (handleDecline ''g123'' (scheduleReminder ev_google 1705308600000 rewalk_state))
     = [AlarmsCreate ''meeting_team-sync_1705309200000'' 1705309080000,
        AlarmsClear ''meeting_g123'']"
  unfolding schedule_google
  by (simp add: ev_google_def handleDecline_def removeEvent_def alarms_clear_def saveEvent_def
      alarms_create_def getEvent_def MEETING_PREFIX_def ALARM_PREFIX_def rewalk_state_def
      saveEvents_def initial_state_def Let_def)

section \<open>Properties of the notification dispatcher\<close>

text \<open>
  The popup, sound, speech, badge and auto-open channels catch their own failures: as long
  as the notification can be created, the dispatch does not throw whatever else fails.
  The notification itself is not guarded: when its creation is rejected the dispatch throws
  at once and no other channel runs.
\<close>

lemma triggerAttention_other_failures_caught:
  "notifications_create_ok p \<Longrightarrow> fst (triggerAttention p st now ev) = Inr ()"
  by (simp add: triggerAttention_def showOSNotification_def Let_def)

lemma triggerAttention_notification_failure:
  "\<not> notifications_create_ok p \<Longrightarrow>
     triggerAttention p st now ev = (Inl (Error ''chrome.notifications.create''), [])"
  by (simp add: triggerAttention_def showOSNotification_def Let_def)

text \<open>
  C9. The failure of one channel must not keep the others from running. With the default
  settings and a platform on which only the creation of the notification fails, the
  dispatch of a reminder throws and does nothing: no popup window, no sound, no badge,
  although each of them works, as the dispatch on the fully working platform shows.
\<close>

theorem triggerAttention_notification_failure_stops_all:
  "triggerAttention (platform_ok\<lparr>notifications_create_ok := False\<rparr>) DEFAULT_SETTINGS
      1705309080000 ev_google
     = (Inl (Error ''chrome.notifications.create''), []) \<and>
   triggerAttention platform_ok DEFAULT_SETTINGS 1705309080000 ev_google
     = (Inr (),
        [NotificationCreated ''pingmeet_g123'' ''Meeting starting in 2 minutes!'' ''Team Sync'' True,
         WindowCreated 366 860,
         SoundMessage,
         BadgeText ''(alarm clock)'', BadgeColor ''#FF0000'',
         BadgeText ''(alarm clock)'', BadgeColor ''#FF6600'',
         BadgeText ''(alarm clock)'', BadgeColor ''#FF0000'',
         BadgeText ''(alarm clock)'', BadgeColor ''#FF6600'',
         BadgeText ''(alarm clock)'', BadgeColor ''#FF0000'',
         BadgeText ''2m'', BadgeColor ''#FF0000''])"
  by (simp add: triggerAttention_def showOSNotification_def Let_def platform_ok_def
      DEFAULT_SETTINGS_def ev_google_def NOTIFICATION_PREFIX_def notificationTitle_def
      showInt_def digits.simps digit_char_def or_else_def has_link_def showReminderWindow_def
      calculateOptimalWindowPosition_def playSound_nm_def ensureOffscreenDocument_def
      flashBadge_def BADGE_URGENT_def BADGE_WARNING_def)

section \<open>Properties of the token lifecycle\<close>

text \<open>
  When the message of the thrown error contains \<open>invalid_grant\<close>, \<open>expired\<close> or
  \<open>revoked\<close>, the loop stops after that one fetch, and \<open>getValidToken\<close> marks the
  provider disconnected, emits the reconnect notification and returns \<open>null\<close>.
\<close>

lemma refresh_loop_auth_error:
  assumes "refresh_attempt (net attempt) = Inl err" and "isAuthError err"
    and "attempt \<le> retries"
  shows "refresh_loop net retries attempt lastError done
           = (Inl (Some err), done @ [Fetch attempt])"
  using assms by (subst refresh_loop.simps) simp

lemma getValidToken_auth_error:
  assumes "google ts = Some c" and "connected c" and "is_set (accessToken c)"
    and "needs_refresh c now" and "authMode c \<noteq> Some ''simple''"
    and "is_set (refreshToken c)" and "is_set (google_clientId ts)"
    and "refresh_attempt (net 1) = Inl err" and "isAuthError err"
  shows "getValidToken net identity now ts = (None, give_up_google ts, [Fetch 1])"
  using assms
  by (simp add: getValidToken_def refreshGoogleToken_def refresh_loop_auth_error)

text \<open>
  The message tested is the \<open>error_description\<close> of the response, or the status line
  when there is none; the \<open>error\<close> code of the response never reaches the test.
\<close>

lemma invalid_grant_message:
  "refresh_attempt (invalid_grant_net k) = Inl (Error ''Bad Request'')"
  by (simp add: refresh_attempt_def invalid_grant_net_def or_else_def)

lemma bad_request_retried: "\<not> isAuthError (Error ''Bad Request'')"
  by (simp add: isAuthError_def)

lemma refresh_invalid_grant:
  "refreshGoogleToken invalid_grant_net 3
     = (Inl (Some (Error ''Bad Request'')), [Fetch 1, Sleep 1000, Fetch 2, Sleep 2000, Fetch 3])"
  by (simp add: refreshGoogleToken_def refresh_loop.simps invalid_grant_message
      bad_request_retried)

text \<open>
  C6. A refresh that the provider rejects because the refresh credential is invalid
  should stop at once. For a provider that answers \<open>invalid_grant\<close> with the
  description \<open>Bad Request\<close>, the refresh is tried three times with waits of one
  and two seconds in between; only then is the provider marked disconnected, the
  reconnect notification emitted and \<open>null\<close> returned.
\<close>

theorem invalid_grant_is_retried:
  "invalid_grant_net 1 = HttpError 400 (Some ''invalid_grant'') (Some ''Bad Request'') \<and>
   refreshGoogleToken invalid_grant_net 3
     = (Inl (Some (Error ''Bad Request'')), [Fetch 1, Sleep 1000, Fetch 2, Sleep 2000, Fetch 3]) \<and>
   getValidToken invalid_grant_net identity 1705309200000 expired_state
     = (None, give_up_google expired_state, [Fetch 1, Sleep 1000, Fetch 2, Sleep 2000, Fetch 3])"
  unfolding getValidToken_def refresh_invalid_grant
  by (simp add: invalid_grant_net_def expired_state_def is_set_def needs_refresh_def)

section \<open>Properties of the ingestion handler\<close>

lemma upcoming_google: "isUpcoming 1705308600000 ev_google"
  by (simp add: isUpcoming_def ev_google_def truthy_def getTime_def timeClip_def js_div_def)

lemma upcoming_untitled: "isUpcoming 1705308600000 ev_untitled"
  by (simp add: isUpcoming_def ev_untitled_def truthy_def getTime_def timeClip_def js_div_def)

text \<open>
  An event without a start time, or with one that does not parse, never passes the
  24-hour filter, at whatever instant the batch arrives.
\<close>

lemma not_upcoming_nostart: "\<not> isUpcoming now ev_nostart"
  by (simp add: isUpcoming_def ev_nostart_def ev_untitled_def truthy_def)

lemma not_upcoming_badtime: "\<not> isUpcoming now ev_badtime"
  by (simp add: isUpcoming_def ev_badtime_def ev_untitled_def truthy_def getTime_def timeClip_def js_div_def)

lemma keepSource_initial: "keepSource initial_state ev"
  by (simp add: keepSource_def initial_state_def)

text \<open>
  An event without a title passes both filters and makes \<open>deduplicateEvents\<close> throw,
  whatever follows it in the batch; \<open>handleNewEvents\<close> has no handler around the call.
\<close>

lemma dedup_untitled_throws:
  "deduplicateEvents (ev_untitled # evs)
     = Inl (TypeError ''Cannot read properties of undefined (reading 'toLowerCase')'')"
  by (simp add: deduplicateEvents_def dedupKey_def ev_untitled_def)

lemma dedup_google_alone: "deduplicateEvents [ev_google] = Inr [ev_google]"
  by (simp add: deduplicateEvents_def key_google)

lemma no_conflicts_google_alone: "detectConflicts [ev_google] = []"
  by (simp add: detectConflicts_def sort_by_start_def)

lemma ingest_google_result:
  "updateBadge (int (length [ev_google])) False
     (scheduleAll (\<lambda>k. 1705308600000) 0 [ev_google] (saveEvents [ev_google] initial_state))
   = (saveEvent ''meeting_team-sync_1705309200000'' ev_google
        (alarms_create ''meeting_team-sync_1705309200000'' 1705309080000
           (saveEvents [ev_google] initial_state)))
       \<lparr>badgeText := ''1'', badgeColor := BADGE_DEFAULT\<rparr>"
proof -
  have "scheduleReminder ev_google 1705308600000 (saveEvents [ev_google] initial_state) =
     saveEvent ''meeting_team-sync_1705309200000'' ev_google
       (alarms_create ''meeting_team-sync_1705309200000'' 1705309080000
          (saveEvents [ev_google] initial_state))"
    by (rule schedule_google_fresh) (simp_all add: saveEvents_def initial_state_def)
  then show ?thesis
    by (simp add: updateBadge_def showInt_def digits.simps digit_char_def)
qed

lemma ingest_untitled:
  "handleNewEvents [ev_untitled, ev_google] 1705308600000 clock initial_state
     = Inl (TypeError ''Cannot read properties of undefined (reading 'toLowerCase')'')"
  by (simp add: handleNewEvents_def keepSource_initial upcoming_google upcoming_untitled
      dedup_untitled_throws)

lemma ingest_google_alone:
  "handleNewEvents [ev_google] 1705308600000 (\<lambda>k. 1705308600000) initial_state
     = Inr ((saveEvent ''meeting_team-sync_1705309200000'' ev_google
        (alarms_create ''meeting_team-sync_1705309200000'' 1705309080000
           (saveEvents [ev_google] initial_state)))
       \<lparr>badgeText := ''1'', badgeColor := BADGE_DEFAULT\<rparr>)"
  using ingest_google_result
  by (simp add: handleNewEvents_def keepSource_initial upcoming_google dedup_google_alone
      no_conflicts_google_alone)

lemma ingest_bad_times:
  "handleNewEvents [ev_nostart, ev_badtime, ev_google] 1705308600000 (\<lambda>k. 1705308600000)
     initial_state
     = Inr ((saveEvent ''meeting_team-sync_1705309200000'' ev_google
        (alarms_create ''meeting_team-sync_1705309200000'' 1705309080000
           (saveEvents [ev_google] initial_state)))
       \<lparr>badgeText := ''1'', badgeColor := BADGE_DEFAULT\<rparr>)"
  using ingest_google_result
  by (simp add: handleNewEvents_def keepSource_initial upcoming_google not_upcoming_nostart
      not_upcoming_badtime dedup_google_alone no_conflicts_google_alone)

text \<open>
  C10. A malformed event must be dropped without an error and must not keep the
  well-formed events of its batch from being stored and scheduled. That holds for the
  events without a usable start time: batched with them, the Google report is stored and
  gets its alarm, as it does alone. It fails for the event without a title: batched with
  it, the handler throws a TypeError and the Google report is neither stored nor
  scheduled.
\<close>

theorem untitled_event_blocks_batch:
  "handleNewEvents [ev_untitled, ev_google] 1705308600000 (\<lambda>k. 1705308600000) initial_state
     = Inl (TypeError ''Cannot read properties of undefined (reading 'toLowerCase')'') \<and>
   map_sum id (\<lambda>s. (alarms s ''meeting_team-sync_1705309200000'', getEvents s))
     (handleNewEvents [ev_google] 1705308600000 (\<lambda>k. 1705308600000) initial_state)
     = Inr (Some 1705309080000, [ev_google]) \<and>
   map_sum id (\<lambda>s. (alarms s ''meeting_team-sync_1705309200000'', getEvents s))
     (handleNewEvents [ev_nostart, ev_badtime, ev_google] 1705308600000 (\<lambda>k. 1705308600000)
        initial_state)
     = Inr (Some 1705309080000, [ev_google])"
  unfolding ingest_untitled ingest_google_alone ingest_bad_times
  by (simp add: saveEvent_def alarms_create_def saveEvents_def getEvents_def Let_def)

section \<open>One meeting in separate batches\<close>













end
